theory Spec2Isabelle
  imports Complex_Main
begin

section \<open>Numbers, errors and arrays\<close>

text \<open>
  The two scripts \<^verbatim>\<open>portfolio_monte_carlo.py\<close> and \<^verbatim>\<open>portfolio_simulator.py\<close> compute
  with numpy's 64-bit floats. The embedding computes with the real numbers: every finite float
  is a real, \<open>+\<close>, \<open>*\<close>, \<open>/\<close>, \<open>exp\<close>, \<open>ln\<close> and \<open>sqrt\<close> are exact, and rounding, overflow
  and underflow are not part of the model; only the median and the percentile of the returns
  are modelled a second time with the rounding of each operation. The one non-number numpy
  and pandas produce from real data, the NaN of an aggregate over too few observations, is
  the value \<open>None\<close>.

  Exceptions are values of the type \<open>error\<close>; a function that can raise returns
  \<open>error + 'a\<close>.
\<close>

datatype error = LinAlgError | IndexError | KeyError

type_synonym vec = "real list"
type_synonym matrix = "real list list"

definition zeros :: "nat \<Rightarrow> vec" where
  "zeros n = replicate n 0"

definition zeros2 :: "nat \<Rightarrow> nat \<Rightarrow> matrix" where
  "zeros2 r c = replicate r (zeros c)"

text \<open>\<^verbatim>\<open>m[i, j] = v\<close> on a two-dimensional array, for indices in range.\<close>

definition set2 :: "matrix \<Rightarrow> nat \<Rightarrow> nat \<Rightarrow> real \<Rightarrow> matrix" where
  "set2 m i j v = m[i := (m ! i)[j := v]]"

text \<open>\<^verbatim>\<open>m[:, j] = v\<close>: column \<open>j\<close> of every row is overwritten from the vector \<open>v\<close>.\<close>

definition set_col :: "matrix \<Rightarrow> nat \<Rightarrow> vec \<Rightarrow> matrix" where
  "set_col m j v = map2 (\<lambda>row x. row[j := x]) m v"

definition np_sum :: "vec \<Rightarrow> real" where
  "np_sum xs = sum_list xs"

definition np_diag :: "matrix \<Rightarrow> vec" where
  "np_diag m = map (\<lambda>i. m ! i ! i) [0..<length m]"

definition dot :: "vec \<Rightarrow> vec \<Rightarrow> real" where
  "dot xs ys = sum_list (map2 (*) xs ys)"

text \<open>\<^verbatim>\<open>chol @ z\<close>, a matrix times a vector.\<close>

definition matvec :: "matrix \<Rightarrow> vec \<Rightarrow> vec" where
  "matvec m z = map (\<lambda>row. dot row z) m"

text \<open>\<^verbatim>\<open>np.eye(n) * e\<close> added to a square matrix.\<close>

definition add_eye :: "matrix \<Rightarrow> real \<Rightarrow> matrix" where
  "add_eye m e =
     map (\<lambda>i. map (\<lambda>j. m ! i ! j + (if i = j then e else 0)) [0..<length (m ! i)])
         [0..<length m]"

subsection \<open>\<^verbatim>\<open>np.linalg.cholesky\<close>\<close>

text \<open>
  numpy hands the matrix to LAPACK's \<^verbatim>\<open>potrf\<close>, which reads the lower triangle row by row
  and stops with an error (numpy's \<^verbatim>\<open>LinAlgError\<close>) at the first pivot that is not strictly
  positive. \<open>chol_offdiag\<close> computes the entries of one row left of the diagonal from the
  rows already done, \<open>chol_rows\<close> adds the pivot, and \<open>np_linalg_cholesky\<close> fills the upper
  triangle with zeros. \<open>None\<close> is the raised \<^verbatim>\<open>LinAlgError\<close>.
\<close>

fun chol_offdiag :: "matrix \<Rightarrow> vec \<Rightarrow> vec \<Rightarrow> vec" where
  "chol_offdiag [] a acc = acc"
| "chol_offdiag (lj # ls) a acc =
     chol_offdiag ls a (acc @ [(a ! length acc - dot acc lj) / (lj ! length acc)])"

fun chol_rows :: "matrix \<Rightarrow> matrix \<Rightarrow> matrix option" where
  "chol_rows L [] = Some L"
| "chol_rows L (a # as) =
     (let acc = chol_offdiag L a [];
          d = a ! length L - dot acc acc
      in if 0 < d then chol_rows (L @ [acc @ [sqrt d]]) as else None)"

definition np_linalg_cholesky :: "matrix \<Rightarrow> matrix option" where
  "np_linalg_cholesky a =
     map_option (map (\<lambda>row. row @ zeros (length a - length row))) (chol_rows [] a)"

subsection \<open>The random generator\<close>

text \<open>
  numpy's global generator is deterministic: its state fixes every draw it will ever return.
  The state is modelled by just that, the sequence of standard normal draws still to come.
  \<^verbatim>\<open>np.random.normal(size=k)\<close> returns the next \<open>k\<close> of them and advances the state;
  \<^verbatim>\<open>np.random.seed(s)\<close> replaces the state by the one the seed determines, whatever it was
  before. Which sequence a seed gives is numpy's business and a parameter here.
\<close>

type_synonym rng = "nat \<Rightarrow> real"

definition random_normal :: "nat \<Rightarrow> rng \<Rightarrow> vec \<times> rng" where
  "random_normal k g = (map g [0..<k], (\<lambda>i. g (i + k)))"


text \<open>\<^verbatim>\<open>np.random.normal(0, 1, (a, b, c))\<close>: the array is filled in row-major order.\<close>

definition random_normal3 :: "nat \<Rightarrow> nat \<Rightarrow> nat \<Rightarrow> rng \<Rightarrow> real list list list \<times> rng" where
  "random_normal3 a b c g =
     (map (\<lambda>i. map (\<lambda>j. map (\<lambda>k. g ((i * b + j) * c + k)) [0..<c]) [0..<b]) [0..<a],
      (\<lambda>i. g (i + a * b * c)))"

section \<open>The factorization step\<close>

text \<open>
  Both scripts factor the daily covariance the same way
  (\<^verbatim>\<open>run_monte_carlo_portfolio\<close>, \<^verbatim>\<open>run_portfolio_simulation\<close>):
  \<^verbatim>\<open>
    try:
        chol = np.linalg.cholesky(daily_cov)
    except np.linalg.LinAlgError:
        daily_cov += np.eye(len(daily_cov)) * 1e-6
        chol = np.linalg.cholesky(daily_cov)
  \<close>
  The \<^verbatim>\<open>+=\<close> changes \<^verbatim>\<open>daily_cov\<close> in place, so the code after the block reads the
  regularized matrix: the step returns the covariance together with the factor. A
  \<^verbatim>\<open>LinAlgError\<close> of the second call is not caught. The factorization routine is a
  parameter \<open>ch\<close>, instantiated with \<open>np_linalg_cholesky\<close> by the callers.
\<close>

definition cholesky_step :: "(matrix \<Rightarrow> matrix option) \<Rightarrow> matrix \<Rightarrow> error + (matrix \<times> matrix)" where
  "cholesky_step ch daily_cov =
     (case ch daily_cov of
        Some chol \<Rightarrow> Inr (daily_cov, chol)
      | None \<Rightarrow>
          (let daily_cov' = add_eye daily_cov (1 / 1000000) in
           case ch daily_cov' of
             Some chol \<Rightarrow> Inr (daily_cov', chol)
           | None \<Rightarrow> Inl LinAlgError))"

section \<open>Return statistics of a price panel\<close>

text \<open>
  A pandas frame is its column names and its rows. \<^verbatim>\<open>frame.mean()\<close> and \<^verbatim>\<open>frame.cov()\<close>
  are NaN in every entry when the frame has no row, respectively fewer than two rows
  (the sample covariance divides by the number of rows minus one): \<open>None\<close> then.
  Prices are strictly positive (the data model's invariant), so the logarithm of a price
  ratio is a number and \<^verbatim>\<open>dropna\<close> removes exactly the first row, the one \<^verbatim>\<open>shift(1)\<close>
  leaves without a predecessor.
\<close>

record frame =
  columns :: "string list"
  rows :: matrix

definition column :: "matrix \<Rightarrow> nat \<Rightarrow> vec" where
  "column m i = map (\<lambda>r. r ! i) m"

definition np_mean :: "vec \<Rightarrow> real option" where
  "np_mean xs = (if xs = [] then None else Some (sum_list xs / real (length xs)))"

definition log_returns :: "matrix \<Rightarrow> matrix" where
  "log_returns ps = map2 (map2 (\<lambda>p q. ln (p / q))) (tl ps) (butlast ps)"

definition frame_mean :: "nat \<Rightarrow> matrix \<Rightarrow> vec option" where
  "frame_mean n rs =
     (if rs = [] then None
      else Some (map (\<lambda>i. sum_list (column rs i) / real (length rs)) [0..<n]))"

definition frame_cov :: "nat \<Rightarrow> matrix \<Rightarrow> matrix option" where
  "frame_cov n rs =
     (if length rs < 2 then None
      else Some (map (\<lambda>i. map (\<lambda>j.
             (let mi = sum_list (column rs i) / real (length rs);
                  mj = sum_list (column rs j) / real (length rs)
              in sum_list (map (\<lambda>r. (r ! i - mi) * (r ! j - mj)) rs) / real (length rs - 1)))
             [0..<n]) [0..<n]))"

section \<open>\<^verbatim>\<open>portfolio_monte_carlo.py\<close>\<close>

subsection \<open>\<^verbatim>\<open>calculate_portfolio_statistics\<close>\<close>

record breakdown =
  allocation_pct :: real
  allocation_dollar :: real
  shares :: real
  current_price :: real

record stats =
  returns :: frame
  weights :: vec
  mean_returns :: "vec option"
  cov_matrix :: "matrix option"
  portfolio_return :: "real option"
  portfolio_volatility :: "real option"
  latest_prices :: vec
  portfolio_breakdown :: "(string \<times> breakdown) list"



subsection \<open>\<^verbatim>\<open>run_monte_carlo_portfolio\<close>\<close>

text \<open>
  One daily step of the price vector, the body of both inner loops:
  \<^verbatim>\<open>
    correlated_shocks = chol @ random_shocks
    drift = (daily_returns - 0.5 * np.diag(daily_cov)) * dt
    diffusion = np.sqrt(np.diag(daily_cov) * dt) * correlated_shocks
    current_prices *= np.exp(drift + diffusion)
  \<close>
  with \<^verbatim>\<open>dt = 1.0\<close>. The diagonal of a covariance is not negative, so the square root
  is the real one.
\<close>

definition dt :: real where
  "dt = 1"

definition gbm_update :: "vec \<Rightarrow> matrix \<Rightarrow> matrix \<Rightarrow> vec \<Rightarrow> vec \<Rightarrow> vec" where
  "gbm_update daily_returns daily_cov chol current_prices random_shocks =
     (let correlated_shocks = matvec chol random_shocks;
          drift = map (\<lambda>x. x * dt)
                    (map2 (-) daily_returns (map (\<lambda>v. 0.5 * v) (np_diag daily_cov)));
          diffusion = map2 (*) (map (\<lambda>v. sqrt (v * dt)) (np_diag daily_cov)) correlated_shocks
      in map2 (*) current_prices (map exp (map2 (+) drift diffusion)))"

text \<open>The first inner loop, \<^verbatim>\<open>for day in range(horizon_days)\<close>, of simulation \<open>sim\<close>.\<close>

definition simulate_days ::
  "vec \<Rightarrow> matrix \<Rightarrow> matrix \<Rightarrow> real list list list \<Rightarrow> nat \<Rightarrow> nat \<Rightarrow> vec \<Rightarrow> vec" where
  "simulate_days daily_returns daily_cov chol random_matrix sim horizon_days initial_prices =
     foldl (\<lambda>current_prices day.
              gbm_update daily_returns daily_cov chol current_prices (random_matrix ! sim ! day))
           initial_prices [0..<horizon_days]"

text \<open>
  The second inner loop, \<^verbatim>\<open>for day in range(1, horizon_days + 1)\<close>, run for the first 100
  simulations only; it reads \<^verbatim>\<open>random_matrix[sim, day-1, :]\<close> and writes
  \<^verbatim>\<open>portfolio_paths[day, sim]\<close>.
\<close>

definition store_days ::
  "vec \<Rightarrow> matrix \<Rightarrow> matrix \<Rightarrow> real list list list \<Rightarrow> vec \<Rightarrow> nat \<Rightarrow> nat \<Rightarrow>
   vec \<times> matrix \<Rightarrow> vec \<times> matrix" where
  "store_days daily_returns daily_cov chol random_matrix shares_held sim horizon_days start =
     foldl (\<lambda>(temp_prices, portfolio_paths) day.
              (let temp_prices' = gbm_update daily_returns daily_cov chol temp_prices
                                    (random_matrix ! sim ! (day - 1))
               in (temp_prices',
                   set2 portfolio_paths day sim (np_sum (map2 (*) temp_prices' shares_held)))))
           start [1..<horizon_days + 1]"

text \<open>
  The body of \<^verbatim>\<open>for sim in range(n_sims)\<close>. \<^verbatim>\<open>portfolio_paths[-1, sim]\<close> is row
  \<open>horizon_days\<close>, the last of the \<open>horizon_days + 1\<close> rows.
\<close>

definition sim_body ::
  "vec \<Rightarrow> matrix \<Rightarrow> matrix \<Rightarrow> real list list list \<Rightarrow> vec \<Rightarrow> vec \<Rightarrow> nat \<Rightarrow>
   matrix \<times> matrix \<Rightarrow> nat \<Rightarrow> matrix \<times> matrix" where
  "sim_body daily_returns daily_cov chol random_matrix initial_prices shares_held horizon_days
     state sim =
     (let (portfolio_paths, individual_final_prices) = state;
          current_prices = simulate_days daily_returns daily_cov chol random_matrix sim
                             horizon_days initial_prices;
          individual_final_prices' = set_col individual_final_prices sim current_prices;
          portfolio_value = np_sum (map2 (*) current_prices shares_held);
          portfolio_paths' = set2 portfolio_paths horizon_days sim portfolio_value
      in if sim < 100
         then (snd (store_days daily_returns daily_cov chol random_matrix shares_held sim
                      horizon_days (initial_prices, portfolio_paths')),
               individual_final_prices')
         else (portfolio_paths', individual_final_prices'))"

text \<open>
  The function. On the all-NaN covariance of a frame with fewer than two rows the model
  follows reference LAPACK, which rejects a NaN pivot: both calls of
  \<^verbatim>\<open>np.linalg.cholesky\<close> raise, NaN plus \<open>1e-6\<close> being NaN. (A LAPACK build that lets the
  NaN through makes every simulated value NaN instead; the simulation of such a panel is not
  modelled further.) The result carries the generator's state after the draw of
  \<^verbatim>\<open>random_matrix\<close>.
\<close>

definition initial_portfolio_value :: real where
  "initial_portfolio_value = 100000"

definition run_monte_carlo_portfolio ::
  "stats \<Rightarrow> frame \<Rightarrow> nat \<Rightarrow> nat \<Rightarrow> rng \<Rightarrow> error + (matrix \<times> matrix list \<times> rng)" where
  "run_monte_carlo_portfolio st prices n_sims horizon_days g =
     (let n_ret = length (columns (returns st)) in
      case (frame_mean n_ret (rows (returns st)), frame_cov n_ret (rows (returns st))) of
        (Some daily_returns, Some daily_cov0) \<Rightarrow>
          (case cholesky_step np_linalg_cholesky daily_cov0 of
             Inl e \<Rightarrow> Inl e
           | Inr (daily_cov, chol) \<Rightarrow>
               (let n_assets = length (columns prices);
                    initial_prices = latest_prices st;
                    shares_held = map2 (/) (map (\<lambda>w. w * 100000) (weights st)) initial_prices;
                    portfolio_paths = (zeros2 (horizon_days + 1) n_sims)
                                        [0 := replicate n_sims initial_portfolio_value];
                    individual_final_prices = zeros2 n_assets n_sims;
                    (random_matrix, g') = random_normal3 n_sims horizon_days n_assets g;
                    (portfolio_paths', individual_final_prices') =
                       foldl (sim_body daily_returns daily_cov chol random_matrix initial_prices
                                shares_held horizon_days)
                             (portfolio_paths, individual_final_prices) [0..<n_sims]
                in Inr (portfolio_paths',
                        [map (\<lambda>p. replicate n_sims p) initial_prices, individual_final_prices'],
                        g')))
      | _ \<Rightarrow> Inl LinAlgError)"

subsection \<open>numpy's aggregates\<close>

text \<open>
  \<^verbatim>\<open>np.median\<close>, \<^verbatim>\<open>np.std\<close> and \<^verbatim>\<open>np.percentile\<close> (its default method, linear
  interpolation between the two order statistics around the position
  \<open>(n - 1) * q / 100\<close>, clipped to the array) are NaN on an empty array. numpy interpolates
  from the upper neighbour when the weight is at least one half.
\<close>

definition np_median :: "vec \<Rightarrow> real option" where
  "np_median xs =
     (let s = sort xs; n = length xs in
      if n = 0 then None
      else if odd n then Some (s ! (n div 2))
      else Some ((s ! (n div 2 - 1) + s ! (n div 2)) / 2))"

definition np_std :: "vec \<Rightarrow> real option" where
  "np_std xs =
     (case np_mean xs of
        None \<Rightarrow> None
      | Some m \<Rightarrow> map_option sqrt (np_mean (map (\<lambda>x. (x - m)\<^sup>2) xs)))"

definition lerp :: "real \<Rightarrow> real \<Rightarrow> real \<Rightarrow> real" where
  "lerp a b t = (if 1 / 2 \<le> t then b - (b - a) * (1 - t) else a + (b - a) * t)"

definition np_percentile :: "vec \<Rightarrow> real \<Rightarrow> real option" where
  "np_percentile xs q =
     (let s = sort xs; n = length xs in
      if n = 0 then None
      else
        (let virtual_index = real (n - 1) * (q / 100);
             previous_index = nat \<lfloor>virtual_index\<rfloor>;
             next_index = min (previous_index + 1) (n - 1);
             gamma = virtual_index - real previous_index
         in Some (lerp (s ! min previous_index (n - 1)) (s ! next_index) gamma)))"

text \<open>\<^verbatim>\<open>np.mean(returns < 0)\<close>: the mean of an array of booleans, \<open>True\<close> counting as 1.\<close>

definition mean_negative :: "vec \<Rightarrow> real option" where
  "mean_negative xs = np_mean (map (\<lambda>r. if r < 0 then 1 else 0) xs)"

subsection \<open>\<^verbatim>\<open>analyze_results\<close>\<close>

record results =
  final_values :: vec
  returns_of_paths :: vec
  mean_return :: "real option"
  median_return :: "real option"
  std_return :: "real option"
  prob_loss :: "real option"
  var_5 :: "real option"
  var_1 :: "real option"
  cvar_5 :: "real option"
  percentiles :: "nat \<rightharpoonup> real option"

text \<open>
  \<^verbatim>\<open>returns[returns <= var_5]\<close> keeps the returns at or below the threshold; a comparison
  with NaN is false, so a NaN threshold selects nothing.
\<close>

definition tail_mean :: "vec \<Rightarrow> real option \<Rightarrow> real option" where
  "tail_mean rs v =
     (case v of None \<Rightarrow> np_mean [] | Some t \<Rightarrow> np_mean (filter (\<lambda>r. r \<le> t) rs))"

text \<open>
  The field \<open>returns_of_paths\<close> is the entry \<^verbatim>\<open>'returns'\<close> of the returned dictionary.
  \<^verbatim>\<open>portfolio_paths[-1, :]\<close> raises on an array without rows. The arguments
  \<^verbatim>\<open>stats\<close> and \<^verbatim>\<open>portfolio_composition\<close> are not read.
\<close>

definition analyze_results :: "matrix \<Rightarrow> error + results" where
  "analyze_results paths =
     (if paths = [] then Inl IndexError
      else
        (let initial_value = 100000;
             finals = last paths;
             rs = map (\<lambda>v. v / initial_value - 1) finals;
             v5 = np_percentile rs 5;
             ladder = [1, 5, 10, 25, 50, 75, 90, 95, 99]
         in Inr \<lparr> final_values = finals,
                  returns_of_paths = rs,
                  mean_return = np_mean rs,
                  median_return = np_median rs,
                  std_return = np_std rs,
                  prob_loss = map_option (\<lambda>m. m * 100) (mean_negative rs),
                  var_5 = v5,
                  var_1 = np_percentile rs 1,
                  cvar_5 = tail_mean rs v5,
                  percentiles = map_of (zip ladder (map (\<lambda>q. np_percentile rs (real q)) ladder)) \<rparr>))"

subsection \<open>\<^verbatim>\<open>main\<close>\<close>


section \<open>\<^verbatim>\<open>portfolio_simulator.py\<close>\<close>

subsection \<open>\<^verbatim>\<open>run_portfolio_simulation\<close>\<close>

text \<open>
  The daily step of this script:
  \<^verbatim>\<open>
    correlated_z = chol @ z
    dt = 1.0
    drift = (mu_daily - 0.5 * np.diag(cov_daily)) * dt
    diffusion = np.sqrt(np.diag(cov_daily)) * np.sqrt(dt) * correlated_z
    stock_prices = stock_prices * np.exp(drift + diffusion)
  \<close>
\<close>

definition gbm_evolution :: "vec \<Rightarrow> matrix \<Rightarrow> matrix \<Rightarrow> vec \<Rightarrow> vec \<Rightarrow> vec" where
  "gbm_evolution mu_daily cov_daily chol stock_prices z =
     (let correlated_z = matvec chol z;
          drift = map (\<lambda>x. x * dt)
                    (map2 (-) mu_daily (map (\<lambda>v. 0.5 * v) (np_diag cov_daily)));
          diffusion = map2 (*) (map (\<lambda>v. sqrt v * sqrt dt) (np_diag cov_daily)) correlated_z
      in map2 (*) stock_prices (map exp (map2 (+) drift diffusion)))"

text \<open>\<^verbatim>\<open>a[t, i, sim] = v\<close> on a three-dimensional array.\<close>

definition set3 :: "real list list list \<Rightarrow> nat \<Rightarrow> nat \<Rightarrow> nat \<Rightarrow> real \<Rightarrow> real list list list" where
  "set3 a t i j v = a[t := set2 (a ! t) i j v]"

text \<open>\<^verbatim>\<open>for i in range(n_assets): sim_stock_paths[t, i, sim] = stock_prices[i]\<close>\<close>

definition store_prices ::
  "real list list list \<Rightarrow> nat \<Rightarrow> nat \<Rightarrow> nat \<Rightarrow> vec \<Rightarrow> real list list list" where
  "store_prices a t n_assets sim stock_prices =
     foldl (\<lambda>a i. set3 a t i sim (stock_prices ! i)) a [0..<n_assets]"

text \<open>
  The state of the loops: the generator, the two result arrays and, inside one simulation,
  the current prices. \<open>day_step\<close> is the body of \<^verbatim>\<open>for t in range(horizon_days)\<close>,
  \<open>simulation\<close> the body of \<^verbatim>\<open>for sim in range(n_sims)\<close>.
\<close>

record loop_state =
  generator :: rng
  sim_portfolio_values :: matrix
  sim_stock_paths :: "real list list list"

definition day_step ::
  "vec \<Rightarrow> matrix \<Rightarrow> matrix \<Rightarrow> vec \<Rightarrow> nat \<Rightarrow> nat \<Rightarrow> vec \<times> loop_state \<Rightarrow> nat \<Rightarrow> vec \<times> loop_state" where
  "day_step mu_daily cov_daily chol shs n_assets sim state t =
     (let (stock_prices, ls) = state;
          (z, g') = random_normal n_assets (generator ls);
          stock_prices' = gbm_evolution mu_daily cov_daily chol stock_prices z;
          paths' = store_prices (sim_stock_paths ls) (t + 1) n_assets sim stock_prices';
          portfolio_value = dot stock_prices' shs
      in (stock_prices',
          \<lparr> generator = g',
            sim_portfolio_values = set2 (sim_portfolio_values ls) (t + 1) sim portfolio_value,
            sim_stock_paths = paths' \<rparr>))"

definition simulation ::
  "vec \<Rightarrow> matrix \<Rightarrow> matrix \<Rightarrow> vec \<Rightarrow> vec \<Rightarrow> nat \<Rightarrow> nat \<Rightarrow> loop_state \<Rightarrow> nat \<Rightarrow> loop_state" where
  "simulation mu_daily cov_daily chol shs last_ps n_assets horizon_days ls sim =
     snd (foldl (day_step mu_daily cov_daily chol shs n_assets sim) (last_ps, ls)
            [0..<horizon_days])"

record simulation_results =
  portfolio_paths :: matrix
  stock_paths :: "real list list list"
  sim_returns :: vec
  final_values_sim :: vec
  initial_portfolio_price :: real
  shares_per_stock :: vec
  last_prices :: vec

text \<open>
  The function, with the generator's state before and after. The entries \<^verbatim>\<open>'returns'\<close> and
  \<^verbatim>\<open>'final_values'\<close> of the returned dictionary are the fields \<open>sim_returns\<close> and
  \<open>final_values_sim\<close>. \<^verbatim>\<open>prices.iloc[-1]\<close> raises on a panel without rows, before the
  factorization; the all-NaN covariance of fewer than two return rows is treated as in
  \<open>run_monte_carlo_portfolio\<close>. There is one weight per column of the panel.
\<close>

definition run_portfolio_simulation ::
  "frame \<Rightarrow> vec \<Rightarrow> nat \<Rightarrow> nat \<Rightarrow> real \<Rightarrow> rng \<Rightarrow> error + (simulation_results \<times> rng)" where
  "run_portfolio_simulation prices ws n_sims horizon_days initial_value g =
     (let rets = log_returns (rows prices);
          n_cols = length (columns prices);
          mu = frame_mean n_cols rets;
          cov = frame_cov n_cols rets
      in if rows prices = [] then Inl IndexError
         else
           (let last_ps = last (rows prices);
                n_assets = length ws
            in case (mu, cov) of
                 (Some mu_daily, Some cov_daily0) \<Rightarrow>
                   (case cholesky_step np_linalg_cholesky cov_daily0 of
                      Inl e \<Rightarrow> Inl e
                    | Inr (cov_daily, chol) \<Rightarrow>
                        (let portfolio_price = dot last_ps ws;
                             shs = map2 (/) (map (\<lambda>w. initial_value * w) ws) last_ps;
                             values0 = (zeros2 (horizon_days + 1) n_sims)
                                         [0 := replicate n_sims initial_value];
                             paths0 = (replicate (horizon_days + 1) (zeros2 n_assets n_sims))
                                        [0 := map (\<lambda>i. replicate n_sims (last_ps ! i))
                                                [0..<n_assets]];
                             ls = foldl (simulation mu_daily cov_daily chol shs last_ps
                                           n_assets horizon_days)
                                    \<lparr> generator = g, sim_portfolio_values = values0,
                                      sim_stock_paths = paths0 \<rparr>
                                    [0..<n_sims];
                             finals = last (sim_portfolio_values ls)
                         in Inr (\<lparr> portfolio_paths = sim_portfolio_values ls,
                                   stock_paths = sim_stock_paths ls,
                                   sim_returns = map (\<lambda>v. v / initial_value - 1) finals,
                                   final_values_sim = finals,
                                   initial_portfolio_price = portfolio_price,
                                   shares_per_stock = shs,
                                   last_prices = last_ps \<rparr>,
                                 generator ls)))
               | _ \<Rightarrow> Inl LinAlgError))"

subsection \<open>The paths the loops compute\<close>

text \<open>
  What the loops of \<^verbatim>\<open>run_portfolio_simulation\<close> compute, written without the arrays, to
  state what the arrays hold. Simulation \<open>sim\<close> draws its vector for day \<open>t\<close> after the
  \<open>sim * horizon_days + t\<close> vectors of the simulations and days before it; \<open>path_prices\<close>
  is its price vector after \<open>d\<close> days. \<open>days_inv\<close> and \<open>sims_inv\<close> are the invariants of
  the inner and the outer loop: the generator has advanced by the draws made so far, the
  arrays keep their shape and hold, in the cells written so far, the portfolio value and
  the prices of that simulation and day, and elsewhere what they held before.
\<close>

definition path_draw :: "rng \<Rightarrow> nat \<Rightarrow> nat \<Rightarrow> nat \<Rightarrow> nat \<Rightarrow> vec" where
  "path_draw g n_assets horizon_days sim t =
     map (\<lambda>i. g ((sim * horizon_days + t) * n_assets + i)) [0..<n_assets]"

definition path_prices ::
  "vec \<Rightarrow> matrix \<Rightarrow> matrix \<Rightarrow> vec \<Rightarrow> rng \<Rightarrow> nat \<Rightarrow> nat \<Rightarrow> nat \<Rightarrow> nat \<Rightarrow> vec" where
  "path_prices mu_daily cov_daily chol last_ps g n_assets horizon_days sim d =
     foldl (\<lambda>p t. gbm_evolution mu_daily cov_daily chol p (path_draw g n_assets horizon_days sim t))
       last_ps [0..<d]"

definition days_inv ::
  "vec \<Rightarrow> matrix \<Rightarrow> matrix \<Rightarrow> vec \<Rightarrow> nat \<Rightarrow> nat \<Rightarrow> vec \<Rightarrow> loop_state \<Rightarrow>
   nat \<Rightarrow> vec \<times> loop_state \<Rightarrow> bool" where
  "days_inv mu cov chol shs n sim p0 ls0 d s =
     (let q = (\<lambda>d. foldl (\<lambda>p t. gbm_evolution mu cov chol p
                                  (map (\<lambda>i. generator ls0 (t * n + i)) [0..<n])) p0 [0..<d]);
          v0 = sim_portfolio_values ls0; a0 = sim_stock_paths ls0;
          v = sim_portfolio_values (snd s); a = sim_stock_paths (snd s)
      in fst s = q d \<and>
         generator (snd s) = (\<lambda>i. generator ls0 (i + d * n)) \<and>
         length v = length v0 \<and> (\<forall>t. length (v ! t) = length (v0 ! t)) \<and>
         (\<forall>t j. v ! t ! j =
            (if j = sim \<and> 1 \<le> t \<and> t \<le> d \<and> t < length v0 \<and> sim < length (v0 ! t)
             then dot (q t) shs else v0 ! t ! j)) \<and>
         length a = length a0 \<and> (\<forall>t. length (a ! t) = length (a0 ! t)) \<and>
         (\<forall>t i. length (a ! t ! i) = length (a0 ! t ! i)) \<and>
         (\<forall>t i j. a ! t ! i ! j =
            (if j = sim \<and> 1 \<le> t \<and> t \<le> d \<and> i < n \<and> t < length a0 \<and> i < length (a0 ! t) \<and>
                sim < length (a0 ! t ! i)
             then q t ! i else a0 ! t ! i ! j)))"

definition sims_inv ::
  "vec \<Rightarrow> matrix \<Rightarrow> matrix \<Rightarrow> vec \<Rightarrow> vec \<Rightarrow> nat \<Rightarrow> nat \<Rightarrow> loop_state \<Rightarrow>
   nat \<Rightarrow> loop_state \<Rightarrow> bool" where
  "sims_inv mu cov chol shs p0 n H ls0 k ls =
     (let g = generator ls0; v0 = sim_portfolio_values ls0; a0 = sim_stock_paths ls0;
          v = sim_portfolio_values ls; a = sim_stock_paths ls
      in generator ls = (\<lambda>i. g (i + k * H * n)) \<and>
         length v = length v0 \<and> (\<forall>t. length (v ! t) = length (v0 ! t)) \<and>
         (\<forall>t j. v ! t ! j =
            (if j < k \<and> 1 \<le> t \<and> t \<le> H \<and> t < length v0 \<and> j < length (v0 ! t)
             then dot (path_prices mu cov chol p0 g n H j t) shs else v0 ! t ! j)) \<and>
         length a = length a0 \<and> (\<forall>t. length (a ! t) = length (a0 ! t)) \<and>
         (\<forall>t i. length (a ! t ! i) = length (a0 ! t ! i)) \<and>
         (\<forall>t i j. a ! t ! i ! j =
            (if j < k \<and> 1 \<le> t \<and> t \<le> H \<and> i < n \<and> t < length a0 \<and> i < length (a0 ! t) \<and>
                j < length (a0 ! t ! i)
             then path_prices mu cov chol p0 g n H j t ! i else a0 ! t ! i ! j)))"

subsection \<open>\<^verbatim>\<open>display_results\<close> and \<^verbatim>\<open>main\<close>\<close>

text \<open>The risk metrics \<^verbatim>\<open>display_results\<close> computes from the simulation and prints.\<close>

record risk_metrics =
  mean_return_d :: "real option"
  median_return_d :: "real option"
  volatility :: "real option"
  prob_negative :: "real option"
  var_5_d :: "real option"
  var_1_d :: "real option"

definition display_results :: "simulation_results \<Rightarrow> risk_metrics" where
  "display_results simulation_results =
     (let rs = sim_returns simulation_results in
      \<lparr> mean_return_d = np_mean rs,
        median_return_d = np_median rs,
        volatility = np_std rs,
        prob_negative = mean_negative rs,
        var_5_d = np_percentile rs 5,
        var_1_d = np_percentile rs 1 \<rparr>)"


section \<open>The conditional value at risk of the specification\<close>

text \<open>
  The specification's words for \<open>CVaR_5\<close>, for comparison with \<open>tail_mean\<close>: the mean of the
  returns at or below \<open>VaR_5\<close>, and \<open>VaR_5\<close> itself if no return is at or below it.
\<close>

definition cvar_5_spec :: "vec \<Rightarrow> real \<Rightarrow> real" where
  "cvar_5_spec rs v5 =
     (let tail = filter (\<lambda>r. r \<le> v5) rs in
      if tail = [] then v5 else sum_list tail / real (length tail))"


section \<open>The median and the percentile in 64-bit floats\<close>

text \<open>
  Where a statement is about the last bits of a number, the exact arithmetic of the
  definitions above says nothing, and the float computation of \<^verbatim>\<open>np.median\<close> and
  \<^verbatim>\<open>np.percentile\<close> is modelled as well. A float is the real number it denotes, and each
  operation of IEEE 754 binary64 returns the exact result rounded to the nearest float, a tie
  going to the float with the even significand: \<open>round64\<close>. A float has a significand of 53
  bits, so the floats next to \<open>x\<close> are the multiples of \<open>2\<close> to the power
  \<open>float64_exponent x\<close>, which is \<open>\<lfloor>log\<^sub>2 \<bar>x\<bar>\<rfloor> - 52\<close> and never less than \<open>-1074\<close> (the
  subnormal numbers). Overflow to infinity is not modelled: the statements about these
  definitions are for numbers of magnitude at most \<open>2 ^ 1022\<close>, whose sums and differences
  do not overflow.
\<close>

definition round_half_even :: "real \<Rightarrow> int" where
  "round_half_even x =
     (let f = \<lfloor>x\<rfloor>; r = x - of_int f in
      if r < 1 / 2 then f else if 1 / 2 < r then f + 1 else if even f then f else f + 1)"

definition float64_exponent :: "real \<Rightarrow> int" where
  "float64_exponent x = max (\<lfloor>log 2 \<bar>x\<bar>\<rfloor> - 52) (- 1074)"

definition round64 :: "real \<Rightarrow> real" where
  "round64 x =
     (if x = 0 then 0
      else of_int (round_half_even (x / 2 powi float64_exponent x)) * 2 powi float64_exponent x)"

definition float64_add :: "real \<Rightarrow> real \<Rightarrow> real" where
  "float64_add a b = round64 (a + b)"

definition float64_sub :: "real \<Rightarrow> real \<Rightarrow> real" where
  "float64_sub a b = round64 (a - b)"

definition float64_mul :: "real \<Rightarrow> real \<Rightarrow> real" where
  "float64_mul a b = round64 (a * b)"

definition float64_div :: "real \<Rightarrow> real \<Rightarrow> real" where
  "float64_div a b = round64 (a / b)"

text \<open>
  \<^verbatim>\<open>returns = (final_values / initial_value) - 1\<close> of \<^verbatim>\<open>analyze_results\<close>: a division and
  a subtraction, each rounded.
\<close>

definition returns64 :: "vec \<Rightarrow> vec" where
  "returns64 finals = map (\<lambda>v. float64_sub (float64_div v 100000) 1) finals"

text \<open>
  \<^verbatim>\<open>np.median\<close> takes \<^verbatim>\<open>np.mean\<close> of the middle element of the sorted array, or of the two
  middle elements: their sum, rounded, divided by their number, rounded.
\<close>

definition np_median64 :: "vec \<Rightarrow> real option" where
  "np_median64 xs =
     (let s = sort xs; n = length xs in
      if n = 0 then None
      else if odd n then Some (float64_div (s ! (n div 2)) 1)
      else Some (float64_div (float64_add (s ! (n div 2 - 1)) (s ! (n div 2))) 2))"

text \<open>
  numpy's interpolation between the neighbours \<open>a\<close> and \<open>b\<close> with the weight \<open>t\<close>, its
  function \<^verbatim>\<open>_lerp\<close>:
  \<^verbatim>\<open>
    diff_b_a = subtract(b, a)
    lerp_interpolation = add(a, diff_b_a * t)
    subtract(b, diff_b_a * (1 - t), out=lerp_interpolation, where=t >= 0.5)
  \<close>
  and \<^verbatim>\<open>np.percentile\<close>, which divides \<open>q\<close> by 100, multiplies by \<open>n - 1\<close>, takes the floor
  as the index of the lower neighbour and the rest as the weight.
\<close>

definition lerp64 :: "real \<Rightarrow> real \<Rightarrow> real \<Rightarrow> real" where
  "lerp64 a b t =
     (let diff_b_a = float64_sub b a in
      if 1 / 2 \<le> t then float64_sub b (float64_mul diff_b_a (float64_sub 1 t))
      else float64_add a (float64_mul diff_b_a t))"

definition np_percentile64 :: "vec \<Rightarrow> real \<Rightarrow> real option" where
  "np_percentile64 xs q =
     (let s = sort xs; n = length xs in
      if n = 0 then None
      else
        (let virtual_index = float64_mul (real (n - 1)) (float64_div q 100);
             previous_index = nat \<lfloor>virtual_index\<rfloor>;
             next_index = min (previous_index + 1) (n - 1);
             gamma = float64_sub virtual_index (real previous_index)
         in Some (lerp64 (s ! min previous_index (n - 1)) (s ! next_index) gamma)))"
section \<open>Example inputs\<close>

text \<open>
  A one-asset history with the two daily log-returns \<open>1\<close> and \<open>-1\<close>: daily mean \<open>0\<close>, daily
  variance \<open>2\<close>, last price \<open>10\<close>.
\<close>

definition example_returns :: frame where
  "example_returns = \<lparr> columns = [''AAPL''], rows = [[1], [-1]] \<rparr>"

definition example_stats :: stats where
  "example_stats = \<lparr> returns = example_returns, weights = [1], mean_returns = Some [0],
     cov_matrix = Some [[504]], portfolio_return = Some 0, portfolio_volatility = Some (sqrt 504),
     latest_prices = [10],
     portfolio_breakdown = [(''AAPL'', \<lparr> allocation_pct = 100, allocation_dollar = 100000,
        shares = 10000, current_price = 10 \<rparr>)] \<rparr>"

text \<open>
  Two simulated paths of one day, ending at 90000 and 110000: the returns \<open>-1/10\<close> and
  \<open>1/10\<close>.
\<close>

definition example_paths :: matrix where
  "example_paths = [[100000, 100000], [90000, 110000]]"

definition example_simulation :: simulation_results where
  "example_simulation =
     \<lparr> portfolio_paths = example_paths, stock_paths = [[[10, 10]], [[9, 11]]],
       sim_returns = [- (1 / 10), 1 / 10], final_values_sim = [90000, 110000],
       initial_portfolio_price = 10, shares_per_stock = [10000], last_prices = [10] \<rparr>"




text \<open>
  A flat one-asset history: three observations of the price 10, so two daily log-returns 0,
  daily mean 0 and daily variance 0; the statistics \<^verbatim>\<open>calculate_portfolio_statistics\<close>
  returns for it; and a generator whose draws are all 0.
\<close>

definition flat_panel :: frame where
  "flat_panel = \<lparr> columns = [''AAPL''], rows = [[10], [10], [10]] \<rparr>"

definition flat_stats :: stats where
  "flat_stats =
     \<lparr> returns = \<lparr> columns = [''AAPL''], rows = [[0], [0]] \<rparr>, weights = [1],
       mean_returns = Some [0], cov_matrix = Some [[0]], portfolio_return = Some 0,
       portfolio_volatility = Some 0, latest_prices = [10],
       portfolio_breakdown = [(''AAPL'', \<lparr> allocation_pct = 100, allocation_dollar = 100000,
          shares = 10000, current_price = 10 \<rparr>)] \<rparr>"

definition zero_draws :: rng where
  "zero_draws = (\<lambda>i. 0)"



section \<open>Arrays: reading after writing\<close>

lemma length_set2 [simp]: "length (set2 m i j v) = length m"
  by (simp add: set2_def)

lemma length_nth_set2 [simp]: "length (set2 m i j v ! k) = length (m ! k)"
  by (cases "i < length m") (auto simp: set2_def nth_list_update list_update_beyond)

lemma nth_set2:
  "set2 m i j v ! k ! l =
     (if k = i \<and> l = j \<and> i < length m \<and> j < length (m ! i) then v else m ! k ! l)"
  by (cases "i < length m"; cases "j < length (m ! i)")
     (auto simp: set2_def nth_list_update list_update_beyond)

lemma foldl_store_shape:
  fixes f :: "vec \<Rightarrow> nat \<Rightarrow> vec" and h :: "vec \<Rightarrow> real" and sim :: nat
  defines "step \<equiv> (\<lambda>(temp_prices, portfolio_paths) day.
              (let temp_prices' = f temp_prices day
               in (temp_prices', set2 portfolio_paths day sim (h temp_prices'))))"
  shows "length (snd (foldl step s ds)) = length (snd s)
     \<and> (\<forall>k. length (snd (foldl step s ds) ! k) = length (snd s ! k))
     \<and> (\<forall>k l. l \<noteq> sim \<longrightarrow> snd (foldl step s ds) ! k ! l = snd s ! k ! l)"
proof (induction ds arbitrary: s)
  case Nil
  then show ?case by simp
next
  case (Cons d ds)
  have "length (snd (step s d)) = length (snd s)"
    "\<And>k. length (snd (step s d) ! k) = length (snd s ! k)"
    "\<And>k l. l \<noteq> sim \<Longrightarrow> snd (step s d) ! k ! l = snd s ! k ! l"
    by (simp_all add: step_def Let_def split_beta nth_set2)
  with Cons.IH [of "step s d"] show ?case by simp
qed


section \<open>The loops of \<^verbatim>\<open>run_monte_carlo_portfolio\<close> write one column each\<close>

lemma store_days_shape:
  "length (snd (store_days dr dc chol rm sh sim H s)) = length (snd s)"
  "length (snd (store_days dr dc chol rm sh sim H s) ! k) = length (snd s ! k)"
  "l \<noteq> sim \<Longrightarrow> snd (store_days dr dc chol rm sh sim H s) ! k ! l = snd s ! k ! l"
  unfolding store_days_def
  using foldl_store_shape [of "\<lambda>tp day. gbm_update dr dc chol tp (rm ! sim ! (day - 1))"
      sim "\<lambda>tp. np_sum (map2 (*) tp sh)" s "[1..<H + 1]"]
  by simp_all

lemma sim_body_shape:
  "length (fst (sim_body dr dc chol rm init sh H s sim)) = length (fst s)"
  "length (fst (sim_body dr dc chol rm init sh H s sim) ! k) = length (fst s ! k)"
  "l \<noteq> sim \<Longrightarrow> fst (sim_body dr dc chol rm init sh H s sim) ! k ! l = fst s ! k ! l"
  by (simp_all add: sim_body_def Let_def split_beta store_days_shape nth_set2)

lemma sim_body_no_store:
  "100 \<le> sim \<Longrightarrow>
   fst (sim_body dr dc chol rm init sh H s sim) =
     set2 (fst s) H sim (np_sum (map2 (*) (simulate_days dr dc chol rm sim H init) sh))"
  by (simp add: sim_body_def Let_def split_beta)

lemma foldl_sim_body_shape:
  "length (fst (foldl (sim_body dr dc chol rm init sh H) s xs)) = length (fst s) \<and>
   (\<forall>k. length (fst (foldl (sim_body dr dc chol rm init sh H) s xs) ! k) = length (fst s ! k)) \<and>
   (\<forall>k l. l \<notin> set xs \<longrightarrow>
      fst (foldl (sim_body dr dc chol rm init sh H) s xs) ! k ! l = fst s ! k ! l)"
proof (induction xs arbitrary: s)
  case Nil
  show ?case by simp
next
  case (Cons x xs)
  show ?case
    using Cons.IH [of "sim_body dr dc chol rm init sh H s x"]
    by (simp add: sim_body_shape)
qed

lemma foldl_sim_body_column:
  assumes "100 \<le> sim" "sim < n_sims"
  shows "fst (foldl (sim_body dr dc chol rm init sh H) s [0..<n_sims]) ! k ! sim =
         set2 (fst s) H sim (np_sum (map2 (*) (simulate_days dr dc chol rm sim H init) sh)) ! k ! sim"
proof -
  let ?f = "sim_body dr dc chol rm init sh H"
  have split: "[0..<n_sims] = [0..<sim] @ sim # [Suc sim..<n_sims]"
    using assms(2) by (metis le0 less_imp_le_nat upt_add_eq_append upt_conv_Cons le_add_diff_inverse)
  have "fst (foldl ?f s [0..<n_sims]) ! k ! sim
        = fst (?f (foldl ?f s [0..<sim]) sim) ! k ! sim"
    using foldl_sim_body_shape [of dr dc chol rm init sh H "?f (foldl ?f s [0..<sim]) sim"
        "[Suc sim..<n_sims]"]
    by (simp add: split)
  also have "\<dots> = set2 (fst (foldl ?f s [0..<sim])) H sim
                    (np_sum (map2 (*) (simulate_days dr dc chol rm sim H init) sh)) ! k ! sim"
    by (simp add: sim_body_no_store assms(1))
  also have "\<dots> = set2 (fst s) H sim
                    (np_sum (map2 (*) (simulate_days dr dc chol rm sim H init) sh)) ! k ! sim"
    using foldl_sim_body_shape [of dr dc chol rm init sh H s "[0..<sim]"]
    by (simp add: nth_set2)
  finally show ?thesis .
qed


section \<open>Three-dimensional arrays and loops over a range\<close>

lemma length_set3 [simp]: "length (set3 a t i j v) = length a"
  by (simp add: set3_def)

lemma length_nth_set3 [simp]: "length (set3 a t i j v ! t') = length (a ! t')"
  by (cases "t < length a") (auto simp: set3_def nth_list_update list_update_beyond)

lemma length_nth_nth_set3 [simp]: "length (set3 a t i j v ! t' ! i') = length (a ! t' ! i')"
  by (cases "t < length a") (auto simp: set3_def nth_list_update list_update_beyond)

lemma nth_set3:
  "set3 a t i j v ! t' ! i' ! j' =
     (if t' = t \<and> i' = i \<and> j' = j \<and> t < length a \<and> i < length (a ! t) \<and> j < length (a ! t ! i)
      then v else a ! t' ! i' ! j')"
  by (cases "t < length a") (auto simp: set3_def nth_list_update list_update_beyond nth_set2)

lemma foldl_upt_invariant:
  assumes "I 0 s0" and "\<And>k s. k < n \<Longrightarrow> I k s \<Longrightarrow> I (Suc k) (f s k)"
  shows "I n (foldl f s0 [0..<n])"
  using assms(2)
proof (induction n)
  case 0
  show ?case using assms(1) by simp
next
  case (Suc n)
  have "I n (foldl f s0 [0..<n])" by (rule Suc.IH) (simp add: Suc.prems)
  then have "I (Suc n) (f (foldl f s0 [0..<n]) n)" by (rule Suc.prems [rotated]) simp
  then show ?case by simp
qed

lemma store_prices_cells:
  "length (store_prices a t n sim ps) = length a \<and>
   (\<forall>t'. length (store_prices a t n sim ps ! t') = length (a ! t')) \<and>
   (\<forall>t' i'. length (store_prices a t n sim ps ! t' ! i') = length (a ! t' ! i')) \<and>
   (\<forall>t' i' j'. store_prices a t n sim ps ! t' ! i' ! j' =
     (if t' = t \<and> j' = sim \<and> i' < n \<and> t < length a \<and> i' < length (a ! t) \<and>
         sim < length (a ! t ! i')
      then ps ! i' else a ! t' ! i' ! j'))"
proof -
  define I where "I = (\<lambda>k b. length b = length a \<and> (\<forall>t'. length (b ! t') = length (a ! t')) \<and>
     (\<forall>t' i'. length (b ! t' ! i') = length (a ! t' ! i')) \<and>
     (\<forall>t' i' j'. b ! t' ! i' ! j' =
       (if t' = t \<and> j' = sim \<and> i' < k \<and> t < length a \<and> i' < length (a ! t) \<and>
           sim < length (a ! t ! i')
        then ps ! i' else a ! t' ! i' ! j')))"
  have base: "I 0 a" by (simp add: I_def)
  have step: "I (Suc k) (set3 b t k sim (ps ! k))" if "k < n" "I k b" for k b
    using that(2) unfolding I_def by (auto simp: nth_set3 less_Suc_eq)
  have "I n (foldl (\<lambda>a i. set3 a t i sim (ps ! i)) a [0..<n])"
    using base step by (rule foldl_upt_invariant [of I a n "\<lambda>a i. set3 a t i sim (ps ! i)"])
  then show ?thesis unfolding I_def store_prices_def .
qed

section \<open>The example inputs, evaluated\<close>

lemma example_mean: "frame_mean (Suc 0) [[1], [-1]] = Some [0]"
  by (simp add: frame_mean_def column_def)

lemma example_cov: "frame_cov (Suc 0) [[1], [-1]] = Some [[2]]"
  by (simp add: frame_cov_def column_def)

lemma cholesky_2: "np_linalg_cholesky [[2]] = Some [[sqrt 2]]"
  by (simp add: np_linalg_cholesky_def dot_def zeros_def)

lemma example_chol: "cholesky_step np_linalg_cholesky [[2]] = Inr ([[2]], [[sqrt 2]])"
  by (simp add: cholesky_step_def cholesky_2)

lemma cholesky_neg: "np_linalg_cholesky [[-1]] = None"
  by (simp add: np_linalg_cholesky_def dot_def)

lemma cholesky_neg_reg: "np_linalg_cholesky (add_eye [[-1]] (1 / 1000000)) = None"
  by (simp add: np_linalg_cholesky_def dot_def add_eye_def)

lemma cholesky_zero: "np_linalg_cholesky [[0]] = None"
  by (simp add: np_linalg_cholesky_def dot_def)

lemma add_eye_zero: "add_eye [[0]] (1 / 1000000) = [[1 / 1000000]]"
  by (simp add: add_eye_def)

lemma sqrt_millionth: "sqrt (1 / 1000000) = 1 / 1000"
  by (simp add: real_sqrt_divide real_sqrt_unique)

lemma cholesky_millionth: "np_linalg_cholesky [[1 / 1000000]] = Some [[1 / 1000]]"
  by (simp add: np_linalg_cholesky_def dot_def zeros_def real_sqrt_divide real_sqrt_unique)

lemma example_returns_of_paths:
  "analyze_results example_paths = Inr res \<Longrightarrow> returns_of_paths res = [- (1 / 10), 1 / 10]"
  by (auto simp: analyze_results_def example_paths_def Let_def)

lemma example_median: "np_median [- (1 / 10), 1 / 10] = Some 0"
  by (simp add: np_median_def)

lemma example_var5: "np_percentile [- (1 / 10), 1 / 10] 5 = Some (- (9 / 100))"
  by (simp add: np_percentile_def lerp_def)

lemma cholesky_step_zero:
  "cholesky_step np_linalg_cholesky [[0]] = Inr ([[1 / 1000000]], [[1 / 1000]])"
  by (simp add: cholesky_step_def cholesky_zero add_eye_zero cholesky_millionth)

lemma flat_log_returns: "log_returns (rows flat_panel) = [[0], [0]]"
  by (simp add: flat_panel_def log_returns_def)

lemma flat_mean: "frame_mean (Suc 0) [[0], [0]] = Some [0]"
  by (simp add: frame_mean_def column_def)

lemma flat_cov: "frame_cov (Suc 0) [[0], [0]] = Some [[0]]"
  by (simp add: frame_cov_def column_def)


lemma flat_hyps:
  "frame_mean (length (columns (returns flat_stats))) (rows (returns flat_stats)) = Some [0]"
  "frame_cov (length (columns (returns flat_stats))) (rows (returns flat_stats)) = Some [[0]]"
  "rows flat_panel \<noteq> []"
  "frame_mean (length (columns flat_panel)) (log_returns (rows flat_panel)) = Some [0]"
  "frame_cov (length (columns flat_panel)) (log_returns (rows flat_panel)) = Some [[0]]"
  "last (rows flat_panel) = [10]"
  "length (columns flat_panel) = 1"
  by (simp_all add: flat_log_returns flat_stats_def flat_mean flat_cov)
     (simp_all add: flat_panel_def flat_mean flat_cov)

section \<open>Simulations from index 100 on keep only their end points\<close>

text \<open>
  Claim C10. In \<^verbatim>\<open>run_monte_carlo_portfolio\<close>, for every simulation index at or beyond 100
  (and a horizon of at least one day), the returned portfolio-path matrix holds the initial
  value 100000 at row 0 and the terminal portfolio value of that simulation at the last row,
  row \<open>horizon_days\<close>; every row in between is still the \<open>0\<close> the matrix was created with.
  The terminal value is the sum over the assets of the price after \<open>horizon_days\<close> daily
  steps times the shares held.
\<close>

theorem later_paths_hold_only_endpoints:
  assumes "frame_mean (length (columns (returns st))) (rows (returns st)) = Some daily_returns"
    and "frame_cov (length (columns (returns st))) (rows (returns st)) = Some daily_cov0"
    and "cholesky_step np_linalg_cholesky daily_cov0 = Inr (daily_cov, chol)"
    and "0 < horizon_days" and "100 \<le> sim" and "sim < n_sims"
  shows "\<exists>pp ip g'.
     run_monte_carlo_portfolio st prices n_sims horizon_days g = Inr (pp, ip, g') \<and>
     length pp = horizon_days + 1 \<and>
     pp ! 0 ! sim = initial_portfolio_value \<and>
     pp ! horizon_days ! sim =
       np_sum (map2 (*)
         (simulate_days daily_returns daily_cov chol
            (fst (random_normal3 n_sims horizon_days (length (columns prices)) g))
            sim horizon_days (latest_prices st))
         (map2 (/) (map (\<lambda>w. w * 100000) (weights st)) (latest_prices st))) \<and>
     (\<forall>day. 0 < day \<and> day < horizon_days \<longrightarrow> pp ! day ! sim = 0)"
proof -
  let ?rm = "fst (random_normal3 n_sims horizon_days (length (columns prices)) g)"
  let ?sh = "map2 (/) (map (\<lambda>w. w * 100000) (weights st)) (latest_prices st)"
  let ?pp0 = "(zeros2 (horizon_days + 1) n_sims)[0 := replicate n_sims initial_portfolio_value]"
  let ?s0 = "(?pp0, zeros2 (length (columns prices)) n_sims)"
  let ?loop = "foldl (sim_body daily_returns daily_cov chol ?rm (latest_prices st) ?sh horizon_days)
                 ?s0 [0..<n_sims]"
  let ?v = "np_sum (map2 (*)
              (simulate_days daily_returns daily_cov chol ?rm sim horizon_days (latest_prices st)) ?sh)"
  have run: "run_monte_carlo_portfolio st prices n_sims horizon_days g =
        Inr (fst ?loop,
             [map (\<lambda>p. replicate n_sims p) (latest_prices st), snd ?loop],
             snd (random_normal3 n_sims horizon_days (length (columns prices)) g))"
    using assms(1-3) by (simp add: run_monte_carlo_portfolio_def Let_def split_beta)
  have len: "length (fst ?loop) = horizon_days + 1"
    using foldl_sim_body_shape [of daily_returns daily_cov chol ?rm "latest_prices st" ?sh
        horizon_days ?s0 "[0..<n_sims]"]
    by (simp add: zeros2_def)
  have col: "fst ?loop ! k ! sim = set2 ?pp0 horizon_days sim ?v ! k ! sim" for k
    using foldl_sim_body_column [OF assms(5,6), of daily_returns daily_cov chol ?rm
        "latest_prices st" ?sh horizon_days ?s0 k]
    by simp
  have shape0: "horizon_days < length ?pp0" "sim < length (?pp0 ! horizon_days)"
    using assms(4,6) by (simp_all add: zeros2_def zeros_def)
  have first: "fst ?loop ! 0 ! sim = initial_portfolio_value"
    using assms(4,6) by (subst col) (simp add: nth_set2 zeros2_def zeros_def)
  have final: "fst ?loop ! horizon_days ! sim = ?v"
    using shape0 by (subst col) (simp add: nth_set2)
  have between: "fst ?loop ! day ! sim = 0" if "0 < day" "day < horizon_days" for day
    using that assms(6) by (subst col) (simp add: nth_set2 zeros2_def zeros_def)
  show ?thesis
    using run len first final between by simp
qed

theorem later_paths_witness:
  "\<exists>pp ip g'.
     run_monte_carlo_portfolio example_stats \<lparr> columns = [''AAPL''], rows = [[9], [10]] \<rparr> 101 2 (\<lambda>i. 0)
       = Inr (pp, ip, g') \<and>
     length pp = 3 \<and> pp ! 0 ! 100 = 100000 \<and> pp ! 1 ! 100 = 0"
proof -
  have h1: "frame_mean (length (columns (returns example_stats))) (rows (returns example_stats)) = Some [0]"
    by (simp add: example_stats_def example_returns_def example_mean)
  have h2: "frame_cov (length (columns (returns example_stats))) (rows (returns example_stats)) = Some [[2]]"
    by (simp add: example_stats_def example_returns_def example_cov)
  have h4: "0 < (2::nat)" "100 \<le> (100::nat)" "(100::nat) < 101" by simp_all
  show ?thesis
    using later_paths_hold_only_endpoints [OF h1 h2 example_chol h4,
        of "\<lparr> columns = [''AAPL''], rows = [[9], [10]] \<rparr>" "\<lambda>i. 0"]
    by (auto simp: initial_portfolio_value_def)
qed

section \<open>The second pass over the first 100 simulations\<close>

lemma foldl_store_fst:
  fixes f :: "vec \<Rightarrow> nat \<Rightarrow> vec" and h :: "vec \<Rightarrow> real" and sim :: nat
  defines "step \<equiv> (\<lambda>(temp_prices, portfolio_paths) day.
              (let temp_prices' = f temp_prices day
               in (temp_prices', set2 portfolio_paths day sim (h temp_prices'))))"
  shows "fst (foldl step s ds) = foldl f (fst s) ds"
proof (induction ds arbitrary: s)
  case Nil
  show ?case by simp
next
  case (Cons d ds)
  have "fst (step s d) = f (fst s) d"
    by (simp add: step_def Let_def split_beta)
  with Cons.IH [of "step s d"] show ?case by simp
qed

lemma store_days_prices:
  "fst (store_days dr dc chol rm sh sim H (init, pp)) = simulate_days dr dc chol rm sim H init"
proof -
  have days: "[1..<H + 1] = map Suc [0..<H]"
    by (simp add: map_Suc_upt)
  show ?thesis
    unfolding store_days_def simulate_days_def days
    by (subst foldl_store_fst) (simp add: foldl_map)
qed

lemma store_days_last:
  assumes "0 < H" "H < length pp" "sim < length (pp ! H)"
  shows "snd (store_days dr dc chol rm sh sim H (init, pp)) ! H ! sim =
         np_sum (map2 (*) (fst (store_days dr dc chol rm sh sim H (init, pp))) sh)"
proof -
  let ?step = "\<lambda>(temp_prices, portfolio_paths) day.
              (let temp_prices' = gbm_update dr dc chol temp_prices (rm ! sim ! (day - 1))
               in (temp_prices', set2 portfolio_paths day sim (np_sum (map2 (*) temp_prices' sh))))"
  let ?s = "foldl ?step (init, pp) [1..<H]"
  have days: "[1..<H + 1] = [1..<H] @ [H]"
    using assms(1) by (simp add: Suc_leI)
  have res: "store_days dr dc chol rm sh sim H (init, pp) = ?step ?s H"
    unfolding store_days_def days by simp
  have shape: "length (snd ?s) = length pp" "length (snd ?s ! H) = length (pp ! H)"
    using foldl_store_shape [of "\<lambda>tp day. gbm_update dr dc chol tp (rm ! sim ! (day - 1))"
      sim "\<lambda>tp. np_sum (map2 (*) tp sh)" "(init, pp)" "[1..<H]"]
    by simp_all
  show ?thesis
    unfolding res using assms shape
    by (simp add: split_beta Let_def nth_set2)
qed

text \<open>
  Claim C9, as amended. The pass that stores the paths of the first 100 simulations reads
  the same entries \<^verbatim>\<open>random_matrix[sim, day-1, :]\<close> of the one pre-generated array that the
  first pass read as \<^verbatim>\<open>random_matrix[sim, day, :]\<close>; no second set of shocks is drawn. So it
  ends with the same price vector, and the value it writes at the last row, for the same
  simulation index, is the terminal portfolio value of the first pass.
\<close>

theorem second_pass_repeats_first_pass:
  assumes "0 < H" and "H < length pp" and "sim < length (pp ! H)"
  shows "fst (store_days dr dc chol rm sh sim H (init, pp)) = simulate_days dr dc chol rm sim H init \<and>
         snd (store_days dr dc chol rm sh sim H (init, pp)) ! H ! sim =
           np_sum (map2 (*) (simulate_days dr dc chol rm sim H init) sh)"
  using store_days_last [OF assms] by (simp add: store_days_prices)

theorem second_pass_witness:
  "fst (store_days [0] [[1]] [[1]] [[[1]]] [50000] 0 1 ([2], [[100000], [0]])) =
     simulate_days [0] [[1]] [[1]] [[[1]]] 0 1 [2] \<and>
   snd (store_days [0] [[1]] [[1]] [[[1]]] [50000] 0 1 ([2], [[100000], [0]])) ! 1 ! 0 =
     np_sum (map2 (*) (simulate_days [0] [[1]] [[1]] [[[1]]] 0 1 [2]) [50000])"
  using second_pass_repeats_first_pass [of 1 "[[100000], [0]]" 0 "[0]" "[[1]]" "[[1]]" "[[[1]]]"
      "[50000]" "[2]"]
  by simp

text \<open>
  The claim as it was stated (the stored terminal value differs from the one of the first
  pass) fails already for one asset, one day and one simulation with the draw \<open>1\<close>:
  simulation 0 of the loop body leaves \<open>100000 * exp (1 / 2)\<close> at the last row, the
  terminal value of its first pass.
\<close>

theorem second_pass_counterexample:
  "\<not> (fst (sim_body [0] [[1]] [[1]] [[[1]]] [2] [50000] 1 ([[100000], [0]], [[0]]) 0) ! 1 ! 0 \<noteq>
       np_sum (map2 (*) (simulate_days [0] [[1]] [[1]] [[[1]]] 0 1 [2]) [50000]))"
  by (simp add: sim_body_def store_days_def simulate_days_def gbm_update_def np_diag_def
      matvec_def dot_def dt_def set2_def set_col_def np_sum_def)

section \<open>The terminal value of every simulation\<close>

lemma store_days_zero: "store_days dr dc chol rm sh sim 0 s = s"
  by (simp add: store_days_def)

lemma sim_body_terminal:
  assumes "H < length (fst s)" and "sim < length (fst s ! H)"
  shows "fst (sim_body dr dc chol rm init sh H s sim) ! H ! sim =
         np_sum (map2 (*) (simulate_days dr dc chol rm sim H init) sh)"
proof -
  let ?v = "np_sum (map2 (*) (simulate_days dr dc chol rm sim H init) sh)"
  let ?pp = "set2 (fst s) H sim ?v"
  have here: "?pp ! H ! sim = ?v" using assms by (simp add: nth_set2)
  show ?thesis
  proof (cases "sim < 100")
    case False
    then show ?thesis using here by (simp add: sim_body_no_store)
  next
    case True
    then have eq: "fst (sim_body dr dc chol rm init sh H s sim) =
                   snd (store_days dr dc chol rm sh sim H (init, ?pp))"
      by (simp add: sim_body_def Let_def split_beta)
    show ?thesis
    proof (cases "H = 0")
      case True
      then show ?thesis using here unfolding eq by (simp add: store_days_zero)
    next
      case False
      then have "0 < H" by simp
      moreover have "H < length ?pp" "sim < length (?pp ! H)" using assms by simp_all
      ultimately show ?thesis
        unfolding eq using store_days_last [of H ?pp sim dr dc chol rm sh init]
        by (simp add: store_days_prices)
    qed
  qed
qed


lemma foldl_sim_body_terminal:
  assumes "sim < n_sims" and "H < length (fst s)" and "sim < length (fst s ! H)"
  shows "fst (foldl (sim_body dr dc chol rm init sh H) s [0..<n_sims]) ! H ! sim =
         np_sum (map2 (*) (simulate_days dr dc chol rm sim H init) sh)"
proof -
  let ?f = "sim_body dr dc chol rm init sh H"
  let ?s1 = "foldl ?f s [0..<sim]"
  have split: "[0..<n_sims] = [0..<sim] @ sim # [Suc sim..<n_sims]"
    using assms(1) by (metis le0 less_imp_le_nat upt_add_eq_append upt_conv_Cons le_add_diff_inverse)
  have shape: "H < length (fst ?s1)" "sim < length (fst ?s1 ! H)"
    using foldl_sim_body_shape [of dr dc chol rm init sh H s "[0..<sim]"] assms(2,3)
    by simp_all
  have "fst (foldl ?f s [0..<n_sims]) ! H ! sim = fst (?f ?s1 sim) ! H ! sim"
    using foldl_sim_body_shape [of dr dc chol rm init sh H "?f ?s1 sim" "[Suc sim..<n_sims]"]
    by (simp add: split)
  also have "\<dots> = np_sum (map2 (*) (simulate_days dr dc chol rm sim H init) sh)"
    using shape by (rule sim_body_terminal)
  finally show ?thesis .
qed

lemma run_monte_carlo_unfold:
  assumes "frame_mean (length (columns (returns st))) (rows (returns st)) = Some daily_returns"
    and "frame_cov (length (columns (returns st))) (rows (returns st)) = Some daily_cov0"
    and "cholesky_step np_linalg_cholesky daily_cov0 = Inr (daily_cov, chol)"
    and "loop = foldl (sim_body daily_returns daily_cov chol
                  (fst (random_normal3 n_sims horizon_days (length (columns prices)) g))
                  (latest_prices st)
                  (map2 (/) (map (\<lambda>w. w * 100000) (weights st)) (latest_prices st))
                  horizon_days)
               ((zeros2 (horizon_days + 1) n_sims)[0 := replicate n_sims initial_portfolio_value],
                zeros2 (length (columns prices)) n_sims)
               [0..<n_sims]"
  shows "run_monte_carlo_portfolio st prices n_sims horizon_days g =
     Inr (fst loop,
          [map (\<lambda>p. replicate n_sims p) (latest_prices st), snd loop],
          snd (random_normal3 n_sims horizon_days (length (columns prices)) g))"
  using assms(1-3) unfolding assms(4)
  by (simp add: run_monte_carlo_portfolio_def Let_def split_beta)

lemma initial_paths_length:
  "H < length ((zeros2 (H + 1) n)[0 := replicate n v])"
  by (simp add: zeros2_def)

lemma initial_paths_row_length:
  "sim < n \<Longrightarrow> sim < length ((zeros2 (H + 1) n)[0 := replicate n v] ! H)"
  by (cases "H = 0") (simp_all add: zeros2_def zeros_def nth_list_update del: replicate.simps)

lemma run_monte_carlo_terminal:
  assumes "frame_mean (length (columns (returns st))) (rows (returns st)) = Some daily_returns"
    and "frame_cov (length (columns (returns st))) (rows (returns st)) = Some daily_cov0"
    and "cholesky_step np_linalg_cholesky daily_cov0 = Inr (daily_cov, chol)"
    and "sim < n_sims"
  shows "\<exists>pp ip g'.
     run_monte_carlo_portfolio st prices n_sims horizon_days g = Inr (pp, ip, g') \<and>
     pp ! horizon_days ! sim =
       np_sum (map2 (*)
         (simulate_days daily_returns daily_cov chol
            (fst (random_normal3 n_sims horizon_days (length (columns prices)) g))
            sim horizon_days (latest_prices st))
         (map2 (/) (map (\<lambda>w. w * 100000) (weights st)) (latest_prices st)))"
proof -
  let ?pp0 = "(zeros2 (horizon_days + 1) n_sims)[0 := replicate n_sims initial_portfolio_value]"
  let ?s0 = "(?pp0, zeros2 (length (columns prices)) n_sims)"
  let ?rm = "fst (random_normal3 n_sims horizon_days (length (columns prices)) g)"
  let ?sh = "map2 (/) (map (\<lambda>w. w * 100000) (weights st)) (latest_prices st)"
  let ?loop = "foldl (sim_body daily_returns daily_cov chol ?rm (latest_prices st) ?sh horizon_days)
                 ?s0 [0..<n_sims]"
  have shape: "horizon_days < length (fst ?s0)" "sim < length (fst ?s0 ! horizon_days)"
    unfolding fst_conv
    by (rule initial_paths_length, rule initial_paths_row_length [OF assms(4)])
  have terminal: "fst ?loop ! horizon_days ! sim =
      np_sum (map2 (*) (simulate_days daily_returns daily_cov chol ?rm sim horizon_days
                          (latest_prices st)) ?sh)"
    using assms(4) shape by (rule foldl_sim_body_terminal)
  have run: "run_monte_carlo_portfolio st prices n_sims horizon_days g =
      Inr (fst ?loop, [map (\<lambda>p. replicate n_sims p) (latest_prices st), snd ?loop],
           snd (random_normal3 n_sims horizon_days (length (columns prices)) g))"
    using assms(1-3) by (rule run_monte_carlo_unfold) simp
  show ?thesis
    by (intro exI conjI) (rule run, rule terminal)
qed

section \<open>A daily step keeps prices positive\<close>

lemma map2_times_exp_pos:
  "\<forall>p\<in>set xs. (0::real) < p \<Longrightarrow> \<forall>p\<in>set (map2 (*) xs (map exp ys)). 0 < p"
  by (auto simp: set_zip)


lemma gbm_evolution_pos:
  "\<forall>p\<in>set stock_prices. 0 < p \<Longrightarrow>
   \<forall>p\<in>set (gbm_evolution mu_daily cov_daily chol stock_prices z). 0 < p"
  unfolding gbm_evolution_def Let_def by (rule map2_times_exp_pos)



lemma day_step_fst:
  "fst (day_step mu cov chol shs n sim s t) =
     gbm_evolution mu cov chol (fst s) (fst (random_normal n (generator (snd s))))"
  by (simp add: day_step_def Let_def split_beta)

lemma day_steps_pos:
  "\<forall>p\<in>set (fst s). 0 < p \<Longrightarrow>
   \<forall>p\<in>set (fst (foldl (day_step mu cov chol shs n sim) s ts)). 0 < p"
proof (induction ts arbitrary: s)
  case Nil
  then show ?case by simp
next
  case (Cons t ts)
  have "\<forall>p\<in>set (fst (day_step mu cov chol shs n sim s t)). 0 < p"
    unfolding day_step_fst using Cons.prems by (rule gbm_evolution_pos)
  then show ?case using Cons.IH by simp
qed

section \<open>The factorization is tried at most twice\<close>

text \<open>
  Claim C2. For every daily covariance matrix, whatever the factorization routine answers:
  if the first factorization succeeds, its factor is used with the matrix unchanged; if it
  fails, \<open>1e-6\<close> times the identity is added once and the factorization is tried once more;
  if that fails too, the step ends in the routine's error (\<^verbatim>\<open>np.linalg.LinAlgError\<close>, the
  factorization error of the specification) and yields no factor. No other matrix is ever
  factored: the outcome depends on the routine only through its answers on the matrix and on
  the matrix regularized with \<open>1e-6\<close>.
\<close>

theorem factorization_retries_exactly_once:
  "(ch cov = Some L \<longrightarrow> cholesky_step ch cov = Inr (cov, L)) \<and>
   (ch cov = None \<and> ch (add_eye cov (1 / 1000000)) = Some L \<longrightarrow>
      cholesky_step ch cov = Inr (add_eye cov (1 / 1000000), L)) \<and>
   (ch cov = None \<and> ch (add_eye cov (1 / 1000000)) = None \<longrightarrow>
      cholesky_step ch cov = Inl LinAlgError) \<and>
   (\<forall>ch'. ch' cov = ch cov \<and> ch' (add_eye cov (1 / 1000000)) = ch (add_eye cov (1 / 1000000)) \<longrightarrow>
      cholesky_step ch' cov = cholesky_step ch cov)"
  by (auto simp: cholesky_step_def Let_def split: option.splits)

theorem factorization_witness:
  "cholesky_step np_linalg_cholesky [[2]] = Inr ([[2]], [[sqrt 2]]) \<and>
   cholesky_step np_linalg_cholesky [[0]] = Inr ([[1 / 1000000]], [[1 / 1000]]) \<and>
   cholesky_step np_linalg_cholesky [[-1]] = Inl LinAlgError \<and>
   cholesky_step (\<lambda>m. if m = [[-1 + 1 / 500000]] then Some [[1]] else np_linalg_cholesky m) [[-1]]
     = cholesky_step np_linalg_cholesky [[-1]]"
proof -
  have a: "cholesky_step np_linalg_cholesky [[2]] = Inr ([[2]], [[sqrt 2]])"
    using factorization_retries_exactly_once [of np_linalg_cholesky "[[2]]" "[[sqrt 2]]", THEN conjunct1]
    by (simp add: cholesky_2)
  have b: "cholesky_step np_linalg_cholesky [[0]] = Inr ([[1 / 1000000]], [[1 / 1000]])"
    using factorization_retries_exactly_once [of np_linalg_cholesky "[[0]]" "[[1 / 1000]]",
        THEN conjunct2, THEN conjunct1]
    by (simp add: cholesky_zero add_eye_zero cholesky_millionth)
  have c: "cholesky_step np_linalg_cholesky [[-1]] = Inl LinAlgError"
    using factorization_retries_exactly_once [of np_linalg_cholesky "[[-1]]",
        THEN conjunct2, THEN conjunct2, THEN conjunct1]
    by (simp add: cholesky_neg cholesky_neg_reg)
  have d: "cholesky_step (\<lambda>m. if m = [[-1 + 1 / 500000]] then Some [[1]] else np_linalg_cholesky m) [[-1]]
     = cholesky_step np_linalg_cholesky [[-1]]"
    using factorization_retries_exactly_once [of np_linalg_cholesky "[[-1]]",
        THEN conjunct2, THEN conjunct2, THEN conjunct2, THEN spec,
        of "\<lambda>m. if m = [[-1 + 1 / 500000]] then Some [[1]] else np_linalg_cholesky m"]
    by (simp add: add_eye_def)
  from a b c d show ?thesis by simp
qed

section \<open>The value at risk is never below every return\<close>

lemma sort_nth_mono:
  "i \<le> j \<Longrightarrow> j < length xs \<Longrightarrow> sort xs ! i \<le> sort (xs::real list) ! j"
  using sorted_nth_mono [of "sort xs" i j] by simp

lemma lerp_ge:
  "a \<le> b \<Longrightarrow> 0 \<le> t \<Longrightarrow> t \<le> 1 \<Longrightarrow> a \<le> lerp a b t"
proof -
  assume h: "a \<le> b" "0 \<le> t" "t \<le> 1"
  have 1: "0 \<le> (b - a) * t" using h by simp
  have "(b - a) * (1 - t) \<le> (b - a) * 1"
    using h by (intro mult_left_mono) simp_all
  then have 2: "a \<le> b - (b - a) * (1 - t)" by simp
  show ?thesis using 1 2 by (simp add: lerp_def)
qed

lemma nat_floor_bounds:
  assumes "0 \<le> (x::real)"
  shows "real (nat \<lfloor>x\<rfloor>) \<le> x" and "x < real (nat \<lfloor>x\<rfloor>) + 1"
proof -
  have "0 \<le> \<lfloor>x\<rfloor>" using assms by simp
  then have eq: "real (nat \<lfloor>x\<rfloor>) = of_int \<lfloor>x\<rfloor>" by simp
  show "real (nat \<lfloor>x\<rfloor>) \<le> x" unfolding eq by (rule of_int_floor_le)
  show "x < real (nat \<lfloor>x\<rfloor>) + 1" unfolding eq by linarith
qed

lemma percentile_ge_min:
  assumes "xs \<noteq> []" "0 \<le> q" "q \<le> 100"
  shows "\<exists>v. np_percentile xs q = Some v \<and> sort xs ! 0 \<le> v"
proof -
  define n where "n = length xs"
  define s where "s = sort xs"
  define vi where "vi = real (n - 1) * (q / 100)"
  define lo where "lo = nat \<lfloor>vi\<rfloor>"
  define hi where "hi = min (lo + 1) (n - 1)"
  have n: "0 < n" using assms(1) by (simp add: n_def)
  have len: "length s = n" by (simp add: s_def n_def)
  have vi0: "0 \<le> vi" using assms(2) by (simp add: vi_def)
  have vi1: "vi \<le> real (n - 1)"
  proof -
    have "real (n - 1) * (q / 100) \<le> real (n - 1) * 1"
      using assms(3) by (intro mult_left_mono) simp_all
    then show ?thesis by (simp add: vi_def)
  qed
  have lo_le: "real lo \<le> vi" and lo_gt: "vi < real lo + 1"
    unfolding lo_def using nat_floor_bounds [OF vi0] by simp_all
  have lo_n: "lo \<le> n - 1" using vi1 lo_le by linarith
  have g0: "0 \<le> vi - real lo" using lo_le by simp
  have g1: "vi - real lo \<le> 1" using lo_gt by simp
  have "lo < n" using n lo_n by linarith
  then have lo_lt: "lo < length xs" unfolding n_def .
  have a: "s ! 0 \<le> s ! min lo (n - 1)"
    unfolding s_def using lo_lt by (intro sort_nth_mono) (simp_all add: n_def)
  have b: "s ! min lo (n - 1) \<le> s ! hi"
    unfolding s_def hi_def using lo_lt by (intro sort_nth_mono) (auto simp: n_def)
  have "s ! min lo (n - 1) \<le> lerp (s ! min lo (n - 1)) (s ! hi) (vi - real lo)"
    using b g0 g1 by (rule lerp_ge)
  with a have "s ! 0 \<le> lerp (s ! min lo (n - 1)) (s ! hi) (vi - real lo)"
    by simp
  moreover have "np_percentile xs q = Some (lerp (s ! min lo (n - 1)) (s ! hi) (vi - real lo))"
    using n unfolding np_percentile_def Let_def s_def hi_def lo_def vi_def n_def by simp
  ultimately show ?thesis by (auto simp: s_def)
qed

lemma sort_head_in_set: "xs \<noteq> [] \<Longrightarrow> sort xs ! 0 \<in> set (xs::real list)"
proof -
  assume "xs \<noteq> []"
  then have "0 < length (sort xs)" by simp
  then have "sort xs ! 0 \<in> set (sort xs)" by (rule nth_mem)
  then show ?thesis by simp
qed

lemma tail_nonempty:
  assumes "xs \<noteq> []" "np_percentile xs 5 = Some v"
  shows "filter (\<lambda>r. r \<le> v) xs \<noteq> []"
proof -
  from percentile_ge_min [OF assms(1), of 5] assms(2) have "sort xs ! 0 \<le> v" by simp
  moreover have "sort xs ! 0 \<in> set xs" using assms(1) by (rule sort_head_in_set)
  ultimately show ?thesis by (auto simp: filter_empty_conv)
qed

text \<open>
  Claim C3. For every non-empty vector of per-path returns the conditional value at risk that
  \<^verbatim>\<open>analyze_results\<close> returns is the one of the specification, which falls back to \<open>VaR_5\<close>
  when no return is at or below \<open>VaR_5\<close>: it is a number, never the NaN of an empty
  selection. The code has no branch for the fallback and needs none, since the smallest
  return is at or below the interpolated percentile and the selection is never empty.
\<close>

theorem cvar_matches_specification:
  assumes "paths \<noteq> []" and "last paths \<noteq> []"
  shows "\<exists>res v. analyze_results paths = Inr res \<and> var_5 res = Some v \<and>
           cvar_5 res = Some (cvar_5_spec (returns_of_paths res) v) \<and>
           filter (\<lambda>r. r \<le> v) (returns_of_paths res) \<noteq> []"
proof -
  let ?rs = "map (\<lambda>v. v / 100000 - 1) (last paths)"
  have ne: "?rs \<noteq> []" using assms(2) by simp
  obtain v where v: "np_percentile ?rs 5 = Some v"
    using percentile_ge_min [OF ne, of 5] by auto
  have tail: "filter (\<lambda>r. r \<le> v) ?rs \<noteq> []"
    using ne v by (rule tail_nonempty)
  have cv: "tail_mean ?rs (Some v) = Some (cvar_5_spec ?rs v)"
    using tail by (simp add: tail_mean_def np_mean_def cvar_5_spec_def Let_def)
  show ?thesis
    using assms(1) v tail cv by (simp add: analyze_results_def Let_def)
qed

theorem cvar_witness:
  "\<exists>res. analyze_results example_paths = Inr res \<and> var_5 res = Some (- (9 / 100)) \<and>
      cvar_5 res = Some (- (1 / 10))"
proof -
  have h: "example_paths \<noteq> []" "last example_paths \<noteq> []"
    by (simp_all add: example_paths_def)
  obtain res v where res: "analyze_results example_paths = Inr res" "var_5 res = Some v"
      "cvar_5 res = Some (cvar_5_spec (returns_of_paths res) v)"
    using cvar_matches_specification [OF h] by blast
  have "var_5 res = Some (- (9 / 100))"
    using res(1) by (auto simp: analyze_results_def example_paths_def Let_def example_var5)
  with res(2) have v: "v = - (9 / 100)" by simp
  have "cvar_5 res = Some (- (1 / 10))"
    unfolding res(3) example_returns_of_paths [OF res(1)] v
    by (simp add: cvar_5_spec_def)
  with res(1) \<open>var_5 res = Some (- (9 / 100))\<close> show ?thesis by blast
qed


section \<open>Rounding to a float\<close>

lemma round_half_even_of_int: "round_half_even (of_int z) = z"
  by (simp add: round_half_even_def)

lemma powr_powi_2: "(2 :: real) powr real_of_int k = 2 powi k"
  by (simp add: powr_real_of_int')

lemma float64_exponent_eq:
  assumes "2 powi (e + 52) \<le> \<bar>x\<bar>" "\<bar>x\<bar> < 2 powi (e + 53)" "- 1074 \<le> e"
  shows "float64_exponent x = e"
proof -
  have "(0 :: real) < 2 powi (e + 52)" by (simp add: zero_less_power_int)
  with assms(1) have pos: "0 < \<bar>x\<bar>" by linarith
  have "2 powr real_of_int (e + 52) \<le> \<bar>x\<bar> \<and> \<bar>x\<bar> < 2 powr real_of_int (e + 52 + 1)"
    unfolding powr_powi_2 using assms by (simp add: add.assoc)
  then have "\<lfloor>log 2 \<bar>x\<bar>\<rfloor> = e + 52"
    using floor_log_eq_powr_iff [OF pos, of 2 "e + 52"] by simp
  then show ?thesis using assms(3) by (simp add: float64_exponent_def)
qed

text \<open>The rounding of a number whose binary exponent is known.\<close>

lemma round64_exponent:
  assumes "2 powi (e + 52) \<le> \<bar>x\<bar>" "\<bar>x\<bar> < 2 powi (e + 53)" "- 1074 \<le> e"
  shows "round64 x = of_int (round_half_even (x / 2 powi e)) * 2 powi e"
proof -
  have "(0 :: real) < 2 powi (e + 52)" by (simp add: zero_less_power_int)
  with assms(1) have "0 < \<bar>x\<bar>" by linarith
  then have "x \<noteq> 0" by simp
  then show ?thesis
    by (simp add: round64_def float64_exponent_eq [OF assms])
qed

lemma float64_exponent_bounds:
  assumes "x \<noteq> 0"
  shows "float64_exponent x = - 1074 \<or> 2 powi (float64_exponent x + 52) \<le> \<bar>x\<bar>"
proof (cases "float64_exponent x = - 1074")
  case True
  then show ?thesis by simp
next
  case False
  have pos: "0 < \<bar>x\<bar>" using assms by simp
  have "\<lfloor>log 2 \<bar>x\<bar>\<rfloor> = float64_exponent x + 52"
    using False by (simp add: float64_exponent_def max_def split: if_splits)
  then have "2 powr real_of_int (float64_exponent x + 52) \<le> \<bar>x\<bar>"
    using floor_log_eq_powr_iff [OF pos, of 2 "float64_exponent x + 52"] by simp
  then show ?thesis
    unfolding powr_powi_2 by simp
qed

text \<open>
  A multiple of a power of two with a significand of at most 53 bits is a float: rounding
  leaves it as it is.
\<close>

lemma round64_representable:
  assumes "x = of_int m * 2 powi p" "\<bar>m\<bar> < 2 ^ 53" "- 1074 \<le> p"
  shows "round64 x = x"
proof (cases "x = 0")
  case True
  then show ?thesis by (simp add: round64_def)
next
  case False
  define e where "e = float64_exponent x"
  have "\<bar>x\<bar> = of_int \<bar>m\<bar> * 2 powi p"
    unfolding assms(1) by (simp add: abs_mult)
  also have "\<dots> < 2 ^ 53 * 2 powi p"
  proof -
    have "(of_int \<bar>m\<bar> :: real) < of_int (2 ^ 53)"
      using assms(2) by (simp only: of_int_less_iff)
    then show ?thesis by (simp add: zero_less_power_int)
  qed
  also have "\<dots> = 2 powi (p + 53)"
    by (simp add: power_int_add)
  finally have hi: "\<bar>x\<bar> < 2 powi (p + 53)" .
  have ep: "e \<le> p"
  proof (rule ccontr)
    assume a: "\<not> e \<le> p"
    with assms(3) have "e \<noteq> - 1074" by simp
    then have "2 powi (e + 52) \<le> \<bar>x\<bar>"
      using float64_exponent_bounds [OF False] by (simp add: e_def)
    moreover have "(2 :: real) powi (p + 53) \<le> 2 powi (e + 52)"
      by (rule power_int_increasing) (use a in simp_all)
    ultimately show False using hi by simp
  qed
  have "x / 2 powi e = of_int m * 2 powi (p - e)"
    unfolding assms(1) by (simp add: power_int_diff)
  also have "\<dots> = of_int (m * 2 ^ nat (p - e))"
    using ep by (simp add: power_int_def)
  finally have "round_half_even (x / 2 powi e) = m * 2 ^ nat (p - e)"
    by (simp only: round_half_even_of_int)
  then have "round64 x = of_int (m * 2 ^ nat (p - e)) * 2 powi e"
    using False by (simp add: round64_def e_def)
  also have "\<dots> = of_int m * (2 powi (p - e) * 2 powi e)"
    using ep by (simp add: power_int_def)
  also have "\<dots> = x"
    unfolding assms(1) by (simp add: power_int_diff)
  finally show ?thesis .
qed

lemma round64_0: "round64 0 = 0"
  by (simp add: round64_def)

lemma round64_of_nat:
  assumes "k < 2 ^ 53"
  shows "round64 (real k) = real k"
proof -
  have "int k < int (2 ^ 53)" using assms by (simp only: of_nat_less_iff)
  then have "\<bar>int k\<bar> < 2 ^ 53" by simp
  then show ?thesis
    by (rule round64_representable [of "real k" "int k" 0, rotated]) simp_all
qed

lemma round64_half_of_nat:
  assumes "k < 2 ^ 53"
  shows "round64 (real k / 2) = real k / 2"
proof -
  have "int k < int (2 ^ 53)" using assms by (simp only: of_nat_less_iff)
  then have "\<bar>int k\<bar> < 2 ^ 53" by simp
  then show ?thesis
    by (rule round64_representable [of "real k / 2" "int k" "- 1", rotated]) simp_all
qed

lemma round64_half: "round64 (1 / 2) = 1 / 2"
  using round64_half_of_nat [of 1] by simp

lemma round64_1: "round64 1 = 1"
  using round64_of_nat [of 1] by simp

lemma float64_half_percent: "float64_div 50 100 = 1 / 2"
  by (simp add: float64_div_def round64_half)

section \<open>The 50th percentile and the median in floats\<close>

lemma percentile64_50_odd:
  assumes "length xs = 2 * k + 1" "length xs < 2 ^ 53" "\<forall>x\<in>set xs. round64 x = x"
  shows "np_percentile64 xs 50 = Some (sort xs ! k)"
proof -
  have k: "k < 2 ^ 53" using assms(1,2) by simp
  have vi: "float64_mul (real (length xs - 1)) (float64_div 50 100) = real k"
    using assms(1) round64_of_nat [OF k] by (simp add: float64_half_percent float64_mul_def)
  have fl: "nat \<lfloor>real k\<rfloor> = k" by simp
  have "sort xs ! k \<in> set (sort xs)"
    using assms(1) by (intro nth_mem) simp
  then have fixed: "round64 (sort xs ! k) = sort xs ! k"
    using assms(3) by simp
  show ?thesis
    unfolding np_percentile64_def Let_def vi fl
    using assms(1)
    by (simp add: lerp64_def float64_sub_def float64_mul_def float64_add_def round64_0 fixed)
qed

lemma median64_odd:
  assumes "length xs = 2 * k + 1" "\<forall>x\<in>set xs. round64 x = x"
  shows "np_median64 xs = Some (sort xs ! k)"
proof -
  have "sort xs ! k \<in> set (sort xs)"
    using assms(1) by (intro nth_mem) simp
  then have fixed: "round64 (sort xs ! k) = sort xs ! k"
    using assms(2) by simp
  show ?thesis
    using assms(1) by (simp add: np_median64_def float64_div_def Let_def fixed)
qed

lemma percentile64_50_even:
  assumes "length xs = 2 * k" "0 < k" "length xs < 2 ^ 53"
  shows "np_percentile64 xs 50 =
     Some (float64_sub (sort xs ! k)
             (float64_mul (float64_sub (sort xs ! k) (sort xs ! (k - 1))) (1 / 2)))"
proof -
  have k: "2 * k - 1 < (2 :: nat) ^ 53" using assms by simp
  have vi: "float64_mul (real (length xs - 1)) (float64_div 50 100) = real (k - 1) + 1 / 2"
  proof -
    have "float64_mul (real (length xs - 1)) (float64_div 50 100) = round64 (real (2 * k - 1) / 2)"
      using assms(1) by (simp add: float64_half_percent float64_mul_def)
    also have "\<dots> = real (2 * k - 1) / 2" using k by (rule round64_half_of_nat)
    also have "\<dots> = real (k - 1) + 1 / 2"
      using assms(2) by (simp add: of_nat_diff field_simps)
    finally show ?thesis .
  qed
  have "\<lfloor>real (k - 1) + 1 / 2\<rfloor> = int (k - 1)"
    by (rule floor_unique) simp_all
  then have fl: "nat \<lfloor>real (k - 1) + 1 / 2\<rfloor> = k - 1" by simp
  have mn: "min (k - 1) (length xs - 1) = k - 1" "min (k - 1 + 1) (length xs - 1) = k"
    using assms by simp_all
  have gamma: "float64_sub (real (k - 1) + 1 / 2) (real (k - 1)) = 1 / 2"
    by (simp add: float64_sub_def round64_half)
  have one: "float64_sub 1 (1 / 2) = 1 / 2"
    by (simp add: float64_sub_def round64_half)
  show ?thesis
    unfolding np_percentile64_def Let_def vi fl mn gamma
    using assms by (simp add: lerp64_def one)
qed

lemma median64_even:
  assumes "length xs = 2 * k" "0 < k"
  shows "np_median64 xs =
     Some (float64_div (float64_add (sort xs ! (k - 1)) (sort xs ! k)) 2)"
  using assms by (simp add: np_median64_def Let_def)

section \<open>Two terminal values whose median and 50th percentile differ\<close>

text \<open>
  The terminal values 50001 and 150001: the floats nearest to 0.50001 and 1.50001, the
  returns (subtracting 1 is exact), their median and their 50th percentile. The difference
  of the two returns, \<open>1 + 2\<^sup>-\<^sup>5\<^sup>3\<close>, lies halfway between two floats and is rounded to 1.
\<close>

lemma float64_quotient_low: "float64_div 50001 100000 = 4503689699363043 / 2 ^ 53"
proof -
  have "round64 (50001 / 100000) =
     of_int (round_half_even ((50001 / 100000) / 2 powi (- 53))) * 2 powi (- 53)"
    by (rule round64_exponent) simp_all
  also have "round_half_even ((50001 / 100000) / 2 powi (- 53)) = 4503689699363043"
    by (simp add: round_half_even_def Let_def)
  finally show ?thesis by (simp add: float64_div_def)
qed

lemma float64_quotient_high: "float64_div 150001 100000 = 6755444477052018 / 2 ^ 52"
proof -
  have "round64 (150001 / 100000) =
     of_int (round_half_even ((150001 / 100000) / 2 powi (- 52))) * 2 powi (- 52)"
    by (rule round64_exponent) simp_all
  also have "round_half_even ((150001 / 100000) / 2 powi (- 52)) = 6755444477052018"
    by (simp add: round_half_even_def Let_def)
  finally show ?thesis by (simp add: float64_div_def)
qed

lemma float64_return_low:
  "float64_sub (4503689699363043 / 2 ^ 53) 1 = - (4503509555377949 / 2 ^ 53)"
  unfolding float64_sub_def
  by (subst round64_representable [of _ "- 4503509555377949" "- 53"]) simp_all

lemma float64_return_high:
  "float64_sub (6755444477052018 / 2 ^ 52) 1 = 2251844849681522 / 2 ^ 52"
  unfolding float64_sub_def
  by (subst round64_representable [of _ "2251844849681522" "- 52"]) simp_all

lemma example_returns64:
  "returns64 [50001, 150001] = [- (4503509555377949 / 2 ^ 53), 2251844849681522 / 2 ^ 52]"
  by (simp only: returns64_def list.map float64_quotient_low float64_quotient_high
      float64_return_low float64_return_high)

lemma example_median64:
  "np_median64 [- (4503509555377949 / 2 ^ 53), 2251844849681522 / 2 ^ 52] =
     Some (180143985095 / 2 ^ 54)"
proof -
  let ?xs = "[- (4503509555377949 / 2 ^ 53), 2251844849681522 / 2 ^ 52 :: real]"
  have s: "float64_add (- (4503509555377949 / 2 ^ 53)) (2251844849681522 / 2 ^ 52) =
     180143985095 / 2 ^ 53"
    unfolding float64_add_def
    by (subst round64_representable [of _ "180143985095" "- 53"]) simp_all
  have d: "float64_div (180143985095 / 2 ^ 53) 2 = 180143985095 / 2 ^ 54"
    unfolding float64_div_def
    by (subst round64_representable [of _ "180143985095" "- 54"]) simp_all
  have "np_median64 ?xs = Some (float64_div (float64_add (sort ?xs ! (1 - 1)) (sort ?xs ! 1)) 2)"
    by (rule median64_even) simp_all
  also have "sort ?xs ! (1 - 1) = - (4503509555377949 / 2 ^ 53)" by simp
  also have "sort ?xs ! 1 = 2251844849681522 / 2 ^ 52" by simp
  also note s
  also note d
  finally show ?thesis .
qed

lemma example_percentile64:
  "np_percentile64 [- (4503509555377949 / 2 ^ 53), 2251844849681522 / 2 ^ 52] 50 =
     Some (180143985096 / 2 ^ 54)"
proof -
  let ?xs = "[- (4503509555377949 / 2 ^ 53), 2251844849681522 / 2 ^ 52 :: real]"
  have diff: "float64_sub (2251844849681522 / 2 ^ 52) (- (4503509555377949 / 2 ^ 53)) = 1"
  proof -
    have "round64 (2251844849681522 / 2 ^ 52 - - (4503509555377949 / 2 ^ 53)) =
       of_int (round_half_even
         ((2251844849681522 / 2 ^ 52 - - (4503509555377949 / 2 ^ 53)) / 2 powi (- 52))) *
       2 powi (- 52)"
      by (rule round64_exponent) simp_all
    also have "round_half_even
         ((2251844849681522 / 2 ^ 52 - - (4503509555377949 / 2 ^ 53)) / 2 powi (- 52)) =
       4503599627370496"
      by (simp add: round_half_even_def Let_def)
    finally show ?thesis by (simp add: float64_sub_def)
  qed
  have half: "float64_mul 1 (1 / 2) = 1 / 2"
    by (simp add: float64_mul_def round64_half)
  have sub: "float64_sub (2251844849681522 / 2 ^ 52) (1 / 2) = 180143985096 / 2 ^ 54"
    unfolding float64_sub_def
    by (subst round64_representable [of _ "22517998137" "- 51"]) simp_all
  have "np_percentile64 ?xs 50 =
     Some (float64_sub (sort ?xs ! 1)
             (float64_mul (float64_sub (sort ?xs ! 1) (sort ?xs ! (1 - 1))) (1 / 2)))"
    by (rule percentile64_50_even) simp_all
  also have "sort ?xs ! (1 - 1) = - (4503509555377949 / 2 ^ 53)" by simp
  also have "sort ?xs ! 1 = 2251844849681522 / 2 ^ 52" by simp
  also note diff
  also note half
  also note sub
  finally show ?thesis .
qed
section \<open>The 50th percentile and the median\<close>

text \<open>In exact arithmetic the two are the same number.\<close>

lemma percentile_50_odd:
  assumes "length xs = 2 * k + 1"
  shows "np_percentile xs 50 = Some (sort xs ! k)"
proof -
  have vi: "real (length xs - 1) * (50 / 100) = real k"
    using assms by simp
  have fl: "nat \<lfloor>real k\<rfloor> = k" by simp
  show ?thesis
    unfolding np_percentile_def Let_def vi fl
    using assms by (simp add: lerp_def)
qed

lemma percentile_50_even:
  assumes "length xs = 2 * k" "0 < k"
  shows "np_percentile xs 50 = Some ((sort xs ! (k - 1) + sort xs ! k) / 2)"
proof -
  have vi: "real (length xs - 1) * (50 / 100) = real (k - 1) + 1 / 2"
    using assms by (simp add: of_nat_diff field_simps)
  have "\<lfloor>real (k - 1) + 1 / 2\<rfloor> = int (k - 1)"
    by (rule floor_unique) simp_all
  then have fl: "nat \<lfloor>real (k - 1) + 1 / 2\<rfloor> = k - 1" by simp
  have mn: "min (k - 1) (length xs - 1) = k - 1" "min (k - 1 + 1) (length xs - 1) = k"
    using assms by simp_all
  show ?thesis
    unfolding np_percentile_def Let_def vi fl mn
    using assms by (simp add: lerp_def field_simps)
qed

lemma percentile_50_median: "np_percentile xs 50 = np_median xs"
proof (cases "length xs = 0")
  case True
  then show ?thesis by (simp add: np_percentile_def np_median_def)
next
  case False
  show ?thesis
  proof (cases "odd (length xs)")
    case True
    then obtain k where k: "length xs = 2 * k + 1" by (auto elim: oddE)
    then have "length xs div 2 = k" by simp
    with k True show ?thesis
      by (simp add: percentile_50_odd [OF k] np_median_def Let_def)
  next
    case even: False
    then obtain k where k: "length xs = 2 * k" by (auto elim: evenE)
    with False have k0: "0 < k" by simp
    from k have "length xs div 2 = k" by simp
    with k even False show ?thesis
      by (simp add: percentile_50_even [OF k k0] np_median_def Let_def)
  qed
qed

text \<open>
  Claim C5, as amended. The entry 50 of the percentile ladder of \<^verbatim>\<open>analyze_results\<close> and the
  reported median return are the same real number when both are computed exactly. In floats
  they are equal for an odd number of returns, where both are the middle return itself. For
  an even number of returns, with the middle returns \<open>a \<le> b\<close>, the median is \<open>(a + b) / 2\<close>
  and the percentile is \<open>b - (b - a) * 0.5\<close>, each operation rounded on its own, so the
  two floats need not be equal. The returns are floats of magnitude at most \<open>2 ^ 1022\<close> and
  there are fewer than \<open>2 ^ 53\<close> of them.
\<close>

theorem percentile_50_is_median:
  "(analyze_results paths = Inr res \<longrightarrow>
      percentiles res 50 = Some (median_return res) \<and>
      np_percentile (returns_of_paths res) 50 = median_return res) \<and>
   (odd (length xs) \<and> length xs < 2 ^ 53 \<and> (\<forall>x\<in>set xs. round64 x = x \<and> \<bar>x\<bar> \<le> 2 ^ 1022) \<longrightarrow>
      np_percentile64 xs 50 = np_median64 xs \<and>
      np_median64 xs = Some (sort xs ! (length xs div 2))) \<and>
   (even (length ys) \<and> 0 < length ys \<and> length ys < 2 ^ 53 \<and>
    (\<forall>y\<in>set ys. round64 y = y \<and> \<bar>y\<bar> \<le> 2 ^ 1022) \<longrightarrow>
      np_median64 ys =
        Some (float64_div (float64_add (sort ys ! (length ys div 2 - 1))
                                       (sort ys ! (length ys div 2))) 2) \<and>
      np_percentile64 ys 50 =
        Some (float64_sub (sort ys ! (length ys div 2))
                (float64_mul (float64_sub (sort ys ! (length ys div 2))
                                          (sort ys ! (length ys div 2 - 1))) (1 / 2))))"
proof (intro conjI impI)
  assume "analyze_results paths = Inr res"
  then show "percentiles res 50 = Some (median_return res)"
    and "np_percentile (returns_of_paths res) 50 = median_return res"
    by (auto simp: analyze_results_def Let_def percentile_50_median split: if_splits)
next
  assume a: "odd (length xs) \<and> length xs < 2 ^ 53 \<and>
    (\<forall>x\<in>set xs. round64 x = x \<and> \<bar>x\<bar> \<le> 2 ^ 1022)"
  then obtain k where k: "length xs = 2 * k + 1" by (auto elim: oddE)
  then have half: "length xs div 2 = k" by simp
  from a have floats: "\<forall>x\<in>set xs. round64 x = x" by blast
  from a have len: "length xs < 2 ^ 53" by blast
  show "np_median64 xs = Some (sort xs ! (length xs div 2))"
    unfolding half using k floats by (rule median64_odd)
  then show "np_percentile64 xs 50 = np_median64 xs"
    unfolding half using percentile64_50_odd [OF k len floats] by simp
next
  assume a: "even (length ys) \<and> 0 < length ys \<and> length ys < 2 ^ 53 \<and>
    (\<forall>y\<in>set ys. round64 y = y \<and> \<bar>y\<bar> \<le> 2 ^ 1022)"
  then obtain k where k: "length ys = 2 * k" by (auto elim: evenE)
  then have half: "length ys div 2 = k" by simp
  from a k have k0: "0 < k" by simp
  from a have len: "length ys < 2 ^ 53" by blast
  show "np_median64 ys =
        Some (float64_div (float64_add (sort ys ! (length ys div 2 - 1))
                                       (sort ys ! (length ys div 2))) 2)"
    unfolding half using k k0 by (rule median64_even)
  show "np_percentile64 ys 50 =
        Some (float64_sub (sort ys ! (length ys div 2))
                (float64_mul (float64_sub (sort ys ! (length ys div 2))
                                          (sort ys ! (length ys div 2 - 1))) (1 / 2)))"
    unfolding half using k k0 len by (rule percentile64_50_even)
qed

theorem percentile_50_witness:
  "(\<exists>res. analyze_results example_paths = Inr res \<and>
      percentiles res 50 = Some (Some 0) \<and> median_return res = Some 0) \<and>
   np_percentile64 [1 / 2, 0, 1] 50 = Some (1 / 2) \<and> np_median64 [1 / 2, 0, 1] = Some (1 / 2) \<and>
   np_median64 [0, 1] = Some (1 / 2) \<and> np_percentile64 [0, 1] 50 = Some (1 / 2)"
proof -
  obtain res where res: "analyze_results example_paths = Inr res"
    by (simp add: analyze_results_def example_paths_def Let_def)
  have "median_return res = Some 0"
    using res by (auto simp: analyze_results_def example_paths_def Let_def example_median)
  with percentile_50_is_median [of example_paths res, THEN conjunct1, THEN mp, OF res] res
  have 1: "\<exists>res. analyze_results example_paths = Inr res \<and>
      percentiles res 50 = Some (Some 0) \<and> median_return res = Some 0"
    by auto
  have odd_hyp: "odd (length [1 / 2, 0, 1 :: real]) \<and> length [1 / 2, 0, 1 :: real] < 2 ^ 53 \<and>
    (\<forall>x\<in>set [1 / 2, 0, 1 :: real]. round64 x = x \<and> \<bar>x\<bar> \<le> 2 ^ 1022)"
    by (simp add: round64_half round64_0 round64_1)
  have even_hyp: "even (length [0, 1 :: real]) \<and> 0 < length [0, 1 :: real] \<and>
    length [0, 1 :: real] < 2 ^ 53 \<and>
    (\<forall>y\<in>set [0, 1 :: real]. round64 y = y \<and> \<bar>y\<bar> \<le> 2 ^ 1022)"
    by (simp add: round64_0 round64_1)
  note o = percentile_50_is_median [of _ _ "[1 / 2, 0, 1]", THEN conjunct2, THEN conjunct1,
      THEN mp, OF odd_hyp]
  note e = percentile_50_is_median [of _ _ _ "[0, 1]", THEN conjunct2, THEN conjunct2,
      THEN mp, OF even_hyp]
  have 2: "np_median64 [1 / 2, 0, 1] = Some (1 / 2)"
    using o [THEN conjunct2] by simp
  have 3: "np_percentile64 [1 / 2, 0, 1] 50 = Some (1 / 2)"
    using o [THEN conjunct1] 2 by simp
  have 4: "np_median64 [0, 1] = Some (1 / 2)"
    using e [THEN conjunct1] by (simp add: float64_add_def float64_div_def round64_1 round64_half)
  have 5: "np_percentile64 [0, 1] 50 = Some (1 / 2)"
    using e [THEN conjunct2]
    by (simp add: float64_sub_def float64_mul_def round64_1 round64_half)
  from 1 2 3 4 5 show ?thesis by blast
qed

text \<open>
  The claim as the specification has it fails for the terminal values 50001 and 150001 of two
  simulations: the returns are the floats \<open>-0.49999000000000005\<close> and
  \<open>0.5000100000000001\<close>, the median is \<open>1.0000000000010001e-05\<close> and the entry 50 of the
  ladder is \<open>1.0000000000065512e-05\<close>, larger by 2 to the power -54.
\<close>

theorem percentile_50_counterexample:
  "returns64 [50001, 150001] = [- (4503509555377949 / 2 ^ 53), 2251844849681522 / 2 ^ 52] \<and>
   np_median64 (returns64 [50001, 150001]) = Some (180143985095 / 2 ^ 54) \<and>
   np_percentile64 (returns64 [50001, 150001]) 50 = Some (180143985096 / 2 ^ 54) \<and>
   np_percentile64 (returns64 [50001, 150001]) 50 \<noteq> np_median64 (returns64 [50001, 150001])"
  unfolding example_returns64 example_median64 example_percentile64 by simp
section \<open>The probability of loss\<close>

lemma sum_indicator:
  "sum_list (map (\<lambda>r. if r < (0::real) then 1 else 0) xs) = real (length (filter (\<lambda>r. r < 0) xs))"
  by (induction xs) simp_all

lemma mean_negative_fraction:
  "xs \<noteq> [] \<Longrightarrow>
   mean_negative xs = Some (real (length (filter (\<lambda>r. r < 0) xs)) / real (length xs))"
  by (simp add: mean_negative_def np_mean_def sum_indicator)

lemma percent_bounds: "0 \<le> (f::real) \<and> f \<le> 1 \<Longrightarrow> 0 \<le> f * 100 \<and> f * 100 \<le> 100"
  by simp

lemma fraction_bounds:
  "xs \<noteq> [] \<Longrightarrow> 0 \<le> real (length (filter P xs)) / real (length xs) \<and>
     real (length (filter P xs)) / real (length xs) \<le> 1"
  by (simp add: divide_le_eq)

text \<open>
  Claim C6, as amended. For every non-empty vector of per-path returns, \<^verbatim>\<open>analyze_results\<close>
  reports the probability of loss as 100 times the fraction of returns strictly less than 0,
  a percentage between 0 and 100; \<^verbatim>\<open>display_results\<close> of the other script computes the
  fraction itself, a number between 0 and 1.
\<close>

theorem probability_of_loss_is_a_percentage:
  "(analyze_results paths = Inr res \<and> returns_of_paths res \<noteq> [] \<longrightarrow>
      prob_loss res =
        Some (real (length (filter (\<lambda>r. r < 0) (returns_of_paths res)))
                / real (length (returns_of_paths res)) * 100) \<and>
      0 \<le> the (prob_loss res) \<and> the (prob_loss res) \<le> 100) \<and>
   (sim_returns sr \<noteq> [] \<longrightarrow>
      prob_negative (display_results sr) =
        Some (real (length (filter (\<lambda>r. r < 0) (sim_returns sr))) / real (length (sim_returns sr))) \<and>
      0 \<le> the (prob_negative (display_results sr)) \<and>
      the (prob_negative (display_results sr)) \<le> 1)"
proof (intro conjI impI)
  assume a: "analyze_results paths = Inr res \<and> returns_of_paths res \<noteq> []"
  let ?rs = "returns_of_paths res"
  let ?f = "real (length (filter (\<lambda>r. r < 0) ?rs)) / real (length ?rs)"
  from a have "prob_loss res = map_option (\<lambda>m. m * 100) (mean_negative ?rs)"
    by (auto simp: analyze_results_def Let_def split: if_splits)
  with a show p: "prob_loss res = Some (?f * 100)"
    by (simp add: mean_negative_fraction)
  from a have "0 \<le> ?f \<and> ?f \<le> 1" by (intro fraction_bounds) simp
  then have "0 \<le> ?f * 100 \<and> ?f * 100 \<le> 100" by (rule percent_bounds)
  then show "0 \<le> the (prob_loss res)" "the (prob_loss res) \<le> 100"
    unfolding p option.sel by blast+
next
  assume a: "sim_returns sr \<noteq> []"
  let ?rs = "sim_returns sr"
  let ?f = "real (length (filter (\<lambda>r. r < 0) ?rs)) / real (length ?rs)"
  show p: "prob_negative (display_results sr) = Some ?f"
    using a by (simp add: display_results_def Let_def mean_negative_fraction)
  from a have "0 \<le> ?f \<and> ?f \<le> 1" by (rule fraction_bounds)
  then show "0 \<le> the (prob_negative (display_results sr))"
    "the (prob_negative (display_results sr)) \<le> 1"
    unfolding p by simp_all
qed

theorem probability_of_loss_witness:
  "(\<exists>res. analyze_results example_paths = Inr res \<and> prob_loss res = Some 50) \<and>
   prob_negative (display_results example_simulation) = Some (1 / 2)"
proof -
  obtain res where res: "analyze_results example_paths = Inr res"
    by (simp add: analyze_results_def example_paths_def Let_def)
  have rs: "returns_of_paths res = [- (1 / 10), 1 / 10]"
    using res by (rule example_returns_of_paths)
  have "prob_loss res = Some 50"
    using probability_of_loss_is_a_percentage [of example_paths res example_simulation,
        THEN conjunct1] res
    by (simp add: rs)
  moreover have "prob_negative (display_results example_simulation) = Some (1 / 2)"
    using probability_of_loss_is_a_percentage [of example_paths res example_simulation,
        THEN conjunct2]
    by (simp add: example_simulation_def)
  ultimately show ?thesis using res by blast
qed

text \<open>
  As the claim was stated, for \<^verbatim>\<open>analyze_results\<close>: one path that ends at 50000 has the
  return \<open>-1/2\<close>, the fraction of losses is 1, and the reported value is 100, not a number
  in \<open>[0, 1]\<close>.
\<close>

theorem probability_of_loss_counterexample:
  "map_sum id prob_loss (analyze_results [[50000]]) = Inr (Some 100) \<and> \<not> (100 :: real) \<le> 1"
  by (simp add: analyze_results_def Let_def mean_negative_def np_mean_def)

section \<open>Panels with fewer than two observations\<close>


lemma log_returns_empty: "log_returns [] = []"
  by (simp add: log_returns_def)




section \<open>What \<^verbatim>\<open>run_portfolio_simulation\<close> stores\<close>

lemma days_inv_0: "days_inv mu cov chol shs n sim p0 ls0 0 (p0, ls0)"
  by (simp add: days_inv_def)

lemma days_inv_step:
  assumes "days_inv mu cov chol shs n sim p0 ls0 d s"
  shows "days_inv mu cov chol shs n sim p0 ls0 (Suc d) (day_step mu cov chol shs n sim s d)"
proof -
  define q where "q = (\<lambda>d. foldl (\<lambda>p t. gbm_evolution mu cov chol p
                                  (map (\<lambda>i. generator ls0 (t * n + i)) [0..<n])) p0 [0..<d])"
  have inv: "fst s = q d" "generator (snd s) = (\<lambda>i. generator ls0 (i + d * n))"
    using assms unfolding days_inv_def Let_def q_def by blast+
  have z: "fst (random_normal n (generator (snd s))) = map (\<lambda>i. generator ls0 (d * n + i)) [0..<n]"
    by (simp add: random_normal_def inv(2) add.commute)
  have g': "snd (random_normal n (generator (snd s))) = (\<lambda>i. generator ls0 (i + Suc d * n))"
    by (simp add: random_normal_def inv(2) add.assoc)
  have qS: "q (Suc d) = gbm_evolution mu cov chol (q d) (map (\<lambda>i. generator ls0 (d * n + i)) [0..<n])"
    by (simp add: q_def)
  have ds: "day_step mu cov chol shs n sim s d =
      (q (Suc d),
       \<lparr> generator = (\<lambda>i. generator ls0 (i + Suc d * n)),
         sim_portfolio_values = set2 (sim_portfolio_values (snd s)) (d + 1) sim (dot (q (Suc d)) shs),
         sim_stock_paths = store_prices (sim_stock_paths (snd s)) (d + 1) n sim (q (Suc d)) \<rparr>)"
    unfolding day_step_def Let_def split_beta z g' inv(1) qS [symmetric] by simp
  show ?thesis
    using assms unfolding ds
    unfolding days_inv_def Let_def q_def [symmetric]
    by (simp add: nth_set2 store_prices_cells le_Suc_eq) auto
qed

lemma days_inv_all:
  "days_inv mu cov chol shs n sim p0 ls0 H
     (foldl (day_step mu cov chol shs n sim) (p0, ls0) [0..<H])"
  using days_inv_0 days_inv_step
  by (rule foldl_upt_invariant
      [of "days_inv mu cov chol shs n sim p0 ls0" "(p0, ls0)" H "day_step mu cov chol shs n sim"])

lemma path_draw_shift:
  "map (\<lambda>i. g (t * n + i + k * H * n)) [0..<n] = path_draw g n H k t"
proof -
  have "t * n + i + k * H * n = (k * H + t) * n + i" for i
    by (simp add: algebra_simps)
  then have "(\<lambda>i. g (t * n + i + k * H * n)) = (\<lambda>i. g ((k * H + t) * n + i))"
    by presburger
  then show ?thesis unfolding path_draw_def by (rule arg_cong)
qed

lemma sims_inv_0: "sims_inv mu cov chol shs p0 n H ls0 0 ls0"
  by (simp add: sims_inv_def)

lemma sims_inv_step:
  assumes "sims_inv mu cov chol shs p0 n H ls0 k ls"
  shows "sims_inv mu cov chol shs p0 n H ls0 (Suc k) (simulation mu cov chol shs p0 n H ls k)"
proof -
  let ?s = "foldl (day_step mu cov chol shs n k) (p0, ls) [0..<H]"
  have gen: "generator ls = (\<lambda>i. generator ls0 (i + k * H * n))"
    using assms unfolding sims_inv_def Let_def by blast
  have q: "foldl (\<lambda>p t. gbm_evolution mu cov chol p (map (\<lambda>i. generator ls (t * n + i)) [0..<n]))
             p0 [0..<d] = path_prices mu cov chol p0 (generator ls0) n H k d" for d
    unfolding path_prices_def gen path_draw_shift ..
  have gs: "(\<lambda>i. generator ls (i + H * n)) = (\<lambda>i. generator ls0 (i + Suc k * H * n))"
    unfolding gen by (simp add: algebra_simps)
  have inner: "days_inv mu cov chol shs n k p0 ls H ?s" by (rule days_inv_all)
  show ?thesis
    using assms inner
    unfolding simulation_def sims_inv_def days_inv_def Let_def q gs
    by (simp add: less_Suc_eq)
qed

lemma sims_inv_all:
  "sims_inv mu cov chol shs p0 n H ls0 n_sims
     (foldl (simulation mu cov chol shs p0 n H) ls0 [0..<n_sims])"
  using sims_inv_0 sims_inv_step
  by (rule foldl_upt_invariant
      [of "sims_inv mu cov chol shs p0 n H ls0" ls0 n_sims "simulation mu cov chol shs p0 n H"])

lemma initial_values_cells:
  "length ((zeros2 (H + 1) n_sims)[0 := replicate n_sims v]) = H + 1"
  "t \<le> H \<Longrightarrow> t < length ((zeros2 (H + 1) n_sims)[0 := replicate n_sims v])"
  "t \<le> H \<Longrightarrow> sim < n_sims \<Longrightarrow>
   sim < length ((zeros2 (H + 1) n_sims)[0 := replicate n_sims v] ! t)"
  "t \<le> H \<Longrightarrow> sim < n_sims \<Longrightarrow>
   (zeros2 (H + 1) n_sims)[0 := replicate n_sims v] ! t ! sim = (if t = 0 then v else 0)"
  by (simp_all add: zeros2_def zeros_def nth_list_update del: replicate.simps)

lemma initial_stock_cells:
  "t \<le> H \<Longrightarrow>
   t < length ((replicate (H + 1) (zeros2 n n_sims))
                [0 := map (\<lambda>i. replicate n_sims (ps ! i)) [0..<n]])"
  "t \<le> H \<Longrightarrow> i < n \<Longrightarrow>
   i < length ((replicate (H + 1) (zeros2 n n_sims))
                [0 := map (\<lambda>i. replicate n_sims (ps ! i)) [0..<n]] ! t)"
  "t \<le> H \<Longrightarrow> i < n \<Longrightarrow> sim < n_sims \<Longrightarrow>
   sim < length ((replicate (H + 1) (zeros2 n n_sims))
                  [0 := map (\<lambda>i. replicate n_sims (ps ! i)) [0..<n]] ! t ! i)"
  "i < n \<Longrightarrow> sim < n_sims \<Longrightarrow>
   (replicate (H + 1) (zeros2 n n_sims))[0 := map (\<lambda>i. replicate n_sims (ps ! i)) [0..<n]]
      ! 0 ! i ! sim = ps ! i"
  by (simp_all add: zeros2_def zeros_def nth_list_update del: replicate.simps)

lemma run_portfolio_simulation_unfold:
  assumes "rows prices \<noteq> []"
    and "frame_mean (length (columns prices)) (log_returns (rows prices)) = Some mu"
    and "frame_cov (length (columns prices)) (log_returns (rows prices)) = Some cov0"
    and "cholesky_step np_linalg_cholesky cov0 = Inr (cov, chol)"
    and "ls = foldl (simulation mu cov chol
                       (map2 (/) (map (\<lambda>w. v0 * w) ws) (last (rows prices)))
                       (last (rows prices)) (length ws) H)
                \<lparr> generator = g,
                  sim_portfolio_values = (zeros2 (H + 1) n_sims)[0 := replicate n_sims v0],
                  sim_stock_paths = (replicate (H + 1) (zeros2 (length ws) n_sims))
                     [0 := map (\<lambda>i. replicate n_sims (last (rows prices) ! i)) [0..<length ws]] \<rparr>
                [0..<n_sims]"
  shows "run_portfolio_simulation prices ws n_sims H v0 g =
     Inr (\<lparr> portfolio_paths = sim_portfolio_values ls,
            stock_paths = sim_stock_paths ls,
            sim_returns = map (\<lambda>v. v / v0 - 1) (last (sim_portfolio_values ls)),
            final_values_sim = last (sim_portfolio_values ls),
            initial_portfolio_price = dot (last (rows prices)) ws,
            shares_per_stock = map2 (/) (map (\<lambda>w. v0 * w) ws) (last (rows prices)),
            last_prices = last (rows prices) \<rparr>,
          generator ls)"
  using assms(1-4) unfolding assms(5)
  by (simp add: run_portfolio_simulation_def Let_def)

lemma sims_inv_values:
  assumes "sims_inv mu cov chol shs p0 n H ls0 k ls"
  shows "length (sim_portfolio_values ls) = length (sim_portfolio_values ls0)"
    and "sim_portfolio_values ls ! t ! j =
       (if j < k \<and> 1 \<le> t \<and> t \<le> H \<and> t < length (sim_portfolio_values ls0) \<and>
           j < length (sim_portfolio_values ls0 ! t)
        then dot (path_prices mu cov chol p0 (generator ls0) n H j t) shs
        else sim_portfolio_values ls0 ! t ! j)"
    and "sim_stock_paths ls ! t ! i ! j =
       (if j < k \<and> 1 \<le> t \<and> t \<le> H \<and> i < n \<and> t < length (sim_stock_paths ls0) \<and>
           i < length (sim_stock_paths ls0 ! t) \<and> j < length (sim_stock_paths ls0 ! t ! i)
        then path_prices mu cov chol p0 (generator ls0) n H j t ! i
        else sim_stock_paths ls0 ! t ! i ! j)"
    and "generator ls = (\<lambda>i. generator ls0 (i + k * H * n))"
  using assms unfolding sims_inv_def Let_def by blast+

lemma run_portfolio_simulation_cells:
  assumes "rows prices \<noteq> []"
    and "frame_mean (length (columns prices)) (log_returns (rows prices)) = Some mu"
    and "frame_cov (length (columns prices)) (log_returns (rows prices)) = Some cov0"
    and "cholesky_step np_linalg_cholesky cov0 = Inr (cov, chol)"
  shows "\<exists>res g'. run_portfolio_simulation prices ws n_sims H v0 g = Inr (res, g') \<and>
     length (portfolio_paths res) = H + 1 \<and>
     final_values_sim res = last (portfolio_paths res) \<and>
     sim_returns res = map (\<lambda>v. v / v0 - 1) (final_values_sim res) \<and>
     (\<forall>t sim. t \<le> H \<and> sim < n_sims \<longrightarrow>
        portfolio_paths res ! t ! sim =
          (if t = 0 then v0
           else dot (path_prices mu cov chol (last (rows prices)) g (length ws) H sim t)
                  (map2 (/) (map (\<lambda>w. v0 * w) ws) (last (rows prices))))) \<and>
     (\<forall>t i sim. t \<le> H \<and> i < length ws \<and> sim < n_sims \<longrightarrow>
        stock_paths res ! t ! i ! sim =
          (if t = 0 then last (rows prices) ! i
           else path_prices mu cov chol (last (rows prices)) g (length ws) H sim t ! i))"
proof -
  define shs where "shs = map2 (/) (map (\<lambda>w. v0 * w) ws) (last (rows prices))"
  define va where "va = (zeros2 (H + 1) n_sims)[0 := replicate n_sims v0]"
  define aa where "aa = (replicate (H + 1) (zeros2 (length ws) n_sims))
                     [0 := map (\<lambda>i. replicate n_sims (last (rows prices) ! i)) [0..<length ws]]"
  define ls0 where "ls0 = \<lparr> generator = g, sim_portfolio_values = va, sim_stock_paths = aa \<rparr>"
  define ls where "ls = foldl (simulation mu cov chol shs (last (rows prices)) (length ws) H)
                          ls0 [0..<n_sims]"
  have sel: "generator ls0 = g" "sim_portfolio_values ls0 = va" "sim_stock_paths ls0 = aa"
    by (simp_all add: ls0_def)
  have inv: "sims_inv mu cov chol shs (last (rows prices)) (length ws) H ls0 n_sims ls"
    unfolding ls_def by (rule sims_inv_all)
  have len: "length (sim_portfolio_values ls) = H + 1"
    unfolding sims_inv_values(1) [OF inv] sel va_def by (rule initial_values_cells(1))
  have v: "sim_portfolio_values ls ! t ! sim =
          (if t = 0 then v0
           else dot (path_prices mu cov chol (last (rows prices)) g (length ws) H sim t) shs)"
    if "t \<le> H" "sim < n_sims" for t sim
  proof -
    have 1: "t < length va" "sim < length (va ! t)" "va ! t ! sim = (if t = 0 then v0 else 0)"
      unfolding va_def
      by (rule initial_values_cells(2) [OF that(1)], rule initial_values_cells(3) [OF that],
          rule initial_values_cells(4) [OF that])
    show ?thesis
      unfolding sims_inv_values(2) [OF inv] sel using that 1 by (cases "t = 0") simp_all
  qed
  have a: "sim_stock_paths ls ! t ! i ! sim =
          (if t = 0 then last (rows prices) ! i
           else path_prices mu cov chol (last (rows prices)) g (length ws) H sim t ! i)"
    if "t \<le> H" "i < length ws" "sim < n_sims" for t i sim
  proof -
    have 1: "t < length aa" "i < length (aa ! t)" "sim < length (aa ! t ! i)"
      "aa ! 0 ! i ! sim = last (rows prices) ! i"
      unfolding aa_def
      by (rule initial_stock_cells(1) [OF that(1)], rule initial_stock_cells(2) [OF that(1,2)],
          rule initial_stock_cells(3) [OF that], rule initial_stock_cells(4) [OF that(2,3)])
    show ?thesis
      unfolding sims_inv_values(3) [OF inv] sel using that 1 by (cases "t = 0") simp_all
  qed
  have run: "run_portfolio_simulation prices ws n_sims H v0 g =
     Inr (\<lparr> portfolio_paths = sim_portfolio_values ls,
            stock_paths = sim_stock_paths ls,
            sim_returns = map (\<lambda>v. v / v0 - 1) (last (sim_portfolio_values ls)),
            final_values_sim = last (sim_portfolio_values ls),
            initial_portfolio_price = dot (last (rows prices)) ws,
            shares_per_stock = shs,
            last_prices = last (rows prices) \<rparr>,
          generator ls)"
    unfolding shs_def
    using assms by (rule run_portfolio_simulation_unfold)
      (simp add: ls_def ls0_def va_def aa_def shs_def)
  show ?thesis
    unfolding run using len v a unfolding shs_def by simp
qed

section \<open>Simulated prices are positive\<close>

lemma length_np_diag [simp]: "length (np_diag m) = length m"
  by (simp add: np_diag_def)

lemma length_matvec [simp]: "length (matvec m z) = length m"
  by (simp add: matvec_def)







lemma length_add_eye [simp]: "length (add_eye m e) = length m"
  by (simp add: add_eye_def)














section \<open>The flat single asset\<close>

lemma gbm_update_single:
  "gbm_update [0] [[1 / 1000000]] [[1 / 1000]] [p] [z] =
     [p * exp (- (1 / 2000000) + z / 1000000)]"
  by (simp add: gbm_update_def np_diag_def matvec_def dot_def dt_def sqrt_millionth)

lemma gbm_evolution_single:
  "gbm_evolution [0] [[1 / 1000000]] [[1 / 1000]] [p] [z] =
     [p * exp (- (1 / 2000000) + z / 1000000)]"
  by (simp add: gbm_evolution_def np_diag_def matvec_def dot_def dt_def sqrt_millionth)

lemma random_normal3_entry:
  "sim < a \<Longrightarrow> t < b \<Longrightarrow>
   fst (random_normal3 a b c g) ! sim ! t = map (\<lambda>k. g ((sim * b + t) * c + k)) [0..<c]"
  by (simp add: random_normal3_def)

lemma simulate_days_single:
  assumes "\<forall>t<d. rm ! sim ! t = [z t]"
  shows "simulate_days [0] [[1 / 1000000]] [[1 / 1000]] rm sim d [p] =
         [p * exp (\<Sum>t<d. (- (1 / 2000000) + z t / 1000000))]"
  using assms
proof (induction d)
  case 0
  show ?case by (simp add: simulate_days_def)
next
  case (Suc d)
  have prev: "simulate_days [0] [[1 / 1000000]] [[1 / 1000]] rm sim d [p] =
         [p * exp (\<Sum>t<d. (- (1 / 2000000) + z t / 1000000))]"
    by (rule Suc.IH) (simp add: Suc.prems)
  have "simulate_days [0] [[1 / 1000000]] [[1 / 1000]] rm sim (Suc d) [p] =
        gbm_update [0] [[1 / 1000000]] [[1 / 1000]]
          (simulate_days [0] [[1 / 1000000]] [[1 / 1000]] rm sim d [p]) (rm ! sim ! d)"
    by (simp add: simulate_days_def)
  also have "\<dots> = [p * exp (\<Sum>t<d. (- (1 / 2000000) + z t / 1000000))
                      * exp (- (1 / 2000000) + z d / 1000000)]"
    unfolding prev using Suc.prems by (simp add: gbm_update_single)
  also have "\<dots> = [p * exp (\<Sum>t<Suc d. (- (1 / 2000000) + z t / 1000000))]"
    by (simp add: exp_add mult.assoc)
  finally show ?case .
qed

lemma path_prices_single:
  "path_prices [0] [[1 / 1000000]] [[1 / 1000]] [p] g (Suc 0) H sim d =
     [p * exp (\<Sum>t<d. (- (1 / 2000000) + g (sim * H + t) / 1000000))]"
proof (induction d)
  case 0
  show ?case by (simp add: path_prices_def)
next
  case (Suc d)
  have "path_prices [0] [[1 / 1000000]] [[1 / 1000]] [p] g (Suc 0) H sim (Suc d) =
        gbm_evolution [0] [[1 / 1000000]] [[1 / 1000]]
          (path_prices [0] [[1 / 1000000]] [[1 / 1000]] [p] g (Suc 0) H sim d) [g (sim * H + d)]"
    by (simp add: path_prices_def path_draw_def)
  also have "\<dots> = [p * exp (\<Sum>t<d. (- (1 / 2000000) + g (sim * H + t) / 1000000))
                      * exp (- (1 / 2000000) + g (sim * H + d) / 1000000)]"
    unfolding Suc.IH by (simp add: gbm_evolution_single)
  also have "\<dots> = [p * exp (\<Sum>t<Suc d. (- (1 / 2000000) + g (sim * H + t) / 1000000))]"
    by (simp add: exp_add mult.assoc)
  finally show ?case .
qed

text \<open>
  Claim C8, as amended. For a single asset with daily mean zero and daily variance zero,
  weight 1 and a strictly positive initial price, the first factorization fails on the zero
  covariance, the covariance is regularized to \<open>1e-6\<close> in place, and every daily step
  multiplies the price by \<open>exp (-5e-7 + 1e-6 * z)\<close> for its draw \<open>z\<close>. Every simulated terminal
  portfolio value is the initial investment times \<open>exp\<close> of the sum of \<open>-5e-7 + 1e-6 * z\<close>
  over the draws of its path (100000 is the initial investment of
  \<^verbatim>\<open>run_monte_carlo_portfolio\<close>); it is the initial investment only for draws that sum to
  half the horizon.
\<close>

theorem regularized_flat_asset_terminal_value:
  "(frame_mean (length (columns (returns st))) (rows (returns st)) = Some [0] \<and>
    frame_cov (length (columns (returns st))) (rows (returns st)) = Some [[0]] \<and>
    weights st = [1] \<and> latest_prices st = [p0] \<and> 0 < p0 \<and> length (columns prices) = 1 \<and>
    sim < n_sims \<longrightarrow>
      (\<exists>pp ip g'. run_monte_carlo_portfolio st prices n_sims H g = Inr (pp, ip, g') \<and>
         pp ! H ! sim =
           100000 * exp (\<Sum>t<H. (- (1 / 2000000) + g (sim * H + t) / 1000000)))) \<and>
   (rows prices \<noteq> [] \<and>
    frame_mean (length (columns prices)) (log_returns (rows prices)) = Some [0] \<and>
    frame_cov (length (columns prices)) (log_returns (rows prices)) = Some [[0]] \<and>
    last (rows prices) = [p0] \<and> 0 < p0 \<and> sim < n_sims \<longrightarrow>
      (\<exists>res g'. run_portfolio_simulation prices [1] n_sims H v0 g = Inr (res, g') \<and>
         final_values_sim res ! sim =
           v0 * exp (\<Sum>t<H. (- (1 / 2000000) + g (sim * H + t) / 1000000))))"
proof (intro conjI impI)
  assume a: "frame_mean (length (columns (returns st))) (rows (returns st)) = Some [0] \<and>
    frame_cov (length (columns (returns st))) (rows (returns st)) = Some [[0]] \<and>
    weights st = [1] \<and> latest_prices st = [p0] \<and> 0 < p0 \<and> length (columns prices) = 1 \<and>
    sim < n_sims"
  let ?rm = "fst (random_normal3 n_sims H (length (columns prices)) g)"
  have draws: "\<forall>t<H. ?rm ! sim ! t = [g (sim * H + t)]"
    using a by (simp add: random_normal3_entry)
  obtain pp ip g' where run: "run_monte_carlo_portfolio st prices n_sims H g = Inr (pp, ip, g')"
    and terminal: "pp ! H ! sim =
       np_sum (map2 (*)
         (simulate_days [0] [[1 / 1000000]] [[1 / 1000]] ?rm sim H (latest_prices st))
         (map2 (/) (map (\<lambda>w. w * 100000) (weights st)) (latest_prices st)))"
    using run_monte_carlo_terminal [of st "[0]" "[[0]]" "[[1 / 1000000]]" "[[1 / 1000]]"
        sim n_sims prices H g] a cholesky_step_zero
    by blast
  have lp: "latest_prices st = [p0]" and w: "weights st = [1]" and p0: "0 < p0"
    using a by blast+
  have "pp ! H ! sim = 100000 * exp (\<Sum>t<H. (- (1 / 2000000) + g (sim * H + t) / 1000000))"
    unfolding terminal lp w simulate_days_single [OF draws]
    using p0 by (simp add: np_sum_def)
  with run show "\<exists>pp ip g'. run_monte_carlo_portfolio st prices n_sims H g = Inr (pp, ip, g') \<and>
         pp ! H ! sim = 100000 * exp (\<Sum>t<H. (- (1 / 2000000) + g (sim * H + t) / 1000000))"
    by blast
next
  assume a: "rows prices \<noteq> [] \<and>
    frame_mean (length (columns prices)) (log_returns (rows prices)) = Some [0] \<and>
    frame_cov (length (columns prices)) (log_returns (rows prices)) = Some [[0]] \<and>
    last (rows prices) = [p0] \<and> 0 < p0 \<and> sim < n_sims"
  from a have ne: "rows prices \<noteq> []"
    and mu: "frame_mean (length (columns prices)) (log_returns (rows prices)) = Some [0]"
    and cov: "frame_cov (length (columns prices)) (log_returns (rows prices)) = Some [[0]]"
    by blast+
  obtain res g' where run: "run_portfolio_simulation prices [1] n_sims H v0 g = Inr (res, g')"
    and len: "length (portfolio_paths res) = H + 1"
    and fin: "final_values_sim res = last (portfolio_paths res)"
    and cells: "\<forall>t sim. t \<le> H \<and> sim < n_sims \<longrightarrow>
        portfolio_paths res ! t ! sim =
          (if t = 0 then v0
           else dot (path_prices [0] [[1 / 1000000]] [[1 / 1000]] (last (rows prices)) g
                       (length [1::real]) H sim t)
                  (map2 (/) (map (\<lambda>w. v0 * w) [1]) (last (rows prices))))"
    using run_portfolio_simulation_cells [OF ne mu cov cholesky_step_zero, of "[1]" n_sims H v0 g]
    by blast
  have "portfolio_paths res \<noteq> []" using len by auto
  then have "final_values_sim res = portfolio_paths res ! H"
    unfolding fin using len by (simp add: last_conv_nth)
  then have "final_values_sim res ! sim = portfolio_paths res ! H ! sim" by simp
  also have "\<dots> = (if H = 0 then v0
           else dot (path_prices [0] [[1 / 1000000]] [[1 / 1000]] (last (rows prices)) g
                       (length [1::real]) H sim H)
                  (map2 (/) (map (\<lambda>w. v0 * w) [1]) (last (rows prices))))"
    using cells a by blast
  also have "\<dots> = v0 * exp (\<Sum>t<H. (- (1 / 2000000) + g (sim * H + t) / 1000000))"
    using a by (cases "H = 0") (auto simp: path_prices_single dot_def)
  finally show "\<exists>res g'. run_portfolio_simulation prices [1] n_sims H v0 g = Inr (res, g') \<and>
         final_values_sim res ! sim =
           v0 * exp (\<Sum>t<H. (- (1 / 2000000) + g (sim * H + t) / 1000000))"
    using run by blast
qed

theorem regularized_flat_asset_witness:
  "(\<exists>pp ip g'. run_monte_carlo_portfolio flat_stats flat_panel 1 1 zero_draws = Inr (pp, ip, g') \<and>
       pp ! 1 ! 0 = 100000 * exp (- (1 / 2000000))) \<and>
   (\<exists>res g'. run_portfolio_simulation flat_panel [1] 1 1 100000 zero_draws = Inr (res, g') \<and>
       final_values_sim res ! 0 = 100000 * exp (- (1 / 2000000)))"
proof -
  have 1: "frame_mean (length (columns (returns flat_stats))) (rows (returns flat_stats)) = Some [0] \<and>
    frame_cov (length (columns (returns flat_stats))) (rows (returns flat_stats)) = Some [[0]] \<and>
    weights flat_stats = [1] \<and> latest_prices flat_stats = [10] \<and> (0::real) < 10 \<and>
    length (columns flat_panel) = 1 \<and> (0::nat) < 1"
    using flat_hyps by (simp add: flat_stats_def)
  have 2: "rows flat_panel \<noteq> [] \<and>
    frame_mean (length (columns flat_panel)) (log_returns (rows flat_panel)) = Some [0] \<and>
    frame_cov (length (columns flat_panel)) (log_returns (rows flat_panel)) = Some [[0]] \<and>
    last (rows flat_panel) = [10] \<and> (0::real) < 10 \<and> (0::nat) < 1"
    using flat_hyps by simp
  show ?thesis
    using regularized_flat_asset_terminal_value [of flat_stats 10 flat_panel 0 1 1 zero_draws 100000,
        THEN conjunct1, rule_format, OF 1]
      regularized_flat_asset_terminal_value [of flat_stats 10 flat_panel 0 1 1 zero_draws 100000,
        THEN conjunct2, rule_format, OF 2]
    by (simp add: zero_draws_def)
qed

lemma flat_simulation_values:
  "map_sum id (final_values_sim \<circ> fst)
     (run_portfolio_simulation flat_panel [1] 1 1 100000 zero_draws) =
   Inr [100000 * exp (- (1 / 2000000))]"
proof -
  define ls where "ls = foldl (simulation [0] [[1 / 1000000]] [[1 / 1000]]
                       (map2 (/) (map (\<lambda>w. 100000 * w) [1]) (last (rows flat_panel)))
                       (last (rows flat_panel)) (length [1::real]) 1)
                \<lparr> generator = zero_draws,
                  sim_portfolio_values = (zeros2 (1 + 1) 1)[0 := replicate 1 100000],
                  sim_stock_paths = (replicate (1 + 1) (zeros2 (length [1::real]) 1))
                     [0 := map (\<lambda>i. replicate 1 (last (rows flat_panel) ! i)) [0..<length [1::real]]] \<rparr>
                [0..<1]"
  have run: "run_portfolio_simulation flat_panel [1] 1 1 100000 zero_draws =
     Inr (\<lparr> portfolio_paths = sim_portfolio_values ls,
            stock_paths = sim_stock_paths ls,
            sim_returns = map (\<lambda>v. v / 100000 - 1) (last (sim_portfolio_values ls)),
            final_values_sim = last (sim_portfolio_values ls),
            initial_portfolio_price = dot (last (rows flat_panel)) [1],
            shares_per_stock = map2 (/) (map (\<lambda>w. 100000 * w) [1]) (last (rows flat_panel)),
            last_prices = last (rows flat_panel) \<rparr>,
          generator ls)"
    using flat_hyps(3,4,5) cholesky_step_zero ls_def by (rule run_portfolio_simulation_unfold)
  have "sim_portfolio_values ls = [[100000], [100000 * exp (- (1 / 2000000))]]"
    unfolding ls_def
    by (simp add: simulation_def day_step_def random_normal_def zero_draws_def flat_panel_def
        gbm_evolution_single store_prices_def set3_def set2_def zeros2_def zeros_def dot_def)
  then show ?thesis unfolding run by simp
qed

text \<open>
  As the claim was stated: with one simulation of one day and the draw 0, the terminal value
  that \<^verbatim>\<open>run_monte_carlo_portfolio\<close> and \<^verbatim>\<open>run_portfolio_simulation\<close> return for
  the flat history is \<open>100000 * exp (-5e-7)\<close>, not 100000.
\<close>

theorem regularized_flat_asset_counterexample:
  "map_sum id fst (run_monte_carlo_portfolio flat_stats flat_panel 1 1 zero_draws) =
     Inr [[100000], [100000 * exp (- (1 / 2000000))]] \<and>
   map_sum id (final_values_sim \<circ> fst)
     (run_portfolio_simulation flat_panel [1] 1 1 100000 zero_draws) =
     Inr [100000 * exp (- (1 / 2000000))] \<and>
   100000 * exp (- (1 / 2000000)) \<noteq> (100000 :: real)"
proof -
  let ?loop = "foldl (sim_body [0] [[1 / 1000000]] [[1 / 1000]]
                  (fst (random_normal3 1 1 (length (columns flat_panel)) zero_draws))
                  (latest_prices flat_stats)
                  (map2 (/) (map (\<lambda>w. w * 100000) (weights flat_stats)) (latest_prices flat_stats))
                  1)
               ((zeros2 (1 + 1) 1)[0 := replicate 1 initial_portfolio_value],
                zeros2 (length (columns flat_panel)) 1)
               [0..<1]"
  have run: "run_monte_carlo_portfolio flat_stats flat_panel 1 1 zero_draws =
     Inr (fst ?loop,
          [map (\<lambda>p. replicate 1 p) (latest_prices flat_stats), snd ?loop],
          snd (random_normal3 1 1 (length (columns flat_panel)) zero_draws))"
    using flat_hyps(1,2) cholesky_step_zero by (rule run_monte_carlo_unfold) simp
  have "fst ?loop = [[100000], [100000 * exp (- (1 / 2000000))]]"
    by (simp add: sim_body_def store_days_def simulate_days_def gbm_update_single
        random_normal3_def zero_draws_def flat_stats_def flat_panel_def zeros2_def zeros_def
        initial_portfolio_value_def set2_def set_col_def np_sum_def)
  then show ?thesis unfolding run flat_simulation_values by simp
qed


section \<open>The draws a batch depends on\<close>











section \<open>Runs that read the same draws\<close>



end
